theory Spec2Isabelle
  imports Main "HOL-Library.Word"
begin

section \<open>The log output manager of victorximenis/logger (core/output.go)\<close>

text \<open>
  The development embeds \<^verbatim>\<open>core/output.go\<close>: the output configuration and its
  validation, the construction and reconfiguration of the output manager, forced
  rotation with recovery, the size check and the dispatch of rotation hooks.

  Go's \<^verbatim>\<open>int\<close> is taken at its width on 64-bit platforms and \<^verbatim>\<open>int64\<close> is a
  64-bit word; comparisons of both are signed (\<open>sint\<close>). Strings are byte lists.

  Every call to the operating system or to the lumberjack logger, every operation on the
  mutex and every \<^verbatim>\<open>go\<close> statement is an action appended to the trace of an explicit
  world, which also carries the clock. The outcome of each external call and the time
  each action takes are read from an environment that may answer differently in every
  world. A goroutine is a task: the \<^verbatim>\<open>go\<close> statement records it, and it runs later,
  on the manager as it is then. Each method runs to its end before the next begins.
\<close>

subsection \<open>Go's path/filepath on Unix (Clean, Dir, Base) and strings.HasSuffix\<close>

text \<open>
  \<^verbatim>\<open>validateConfig\<close> calls \<^verbatim>\<open>filepath.Dir\<close>, \<^verbatim>\<open>filepath.Base\<close> and
  \<^verbatim>\<open>strings.HasSuffix\<close> of Go's standard library. They are transcribed here from
  the library's Unix build: the separator is \<open>/\<close> and the volume name is empty.
\<close>

definition Separator :: char where
  "Separator = CHR ''/''"

definition IsPathSeparator :: "char \<Rightarrow> bool" where
  "IsPathSeparator c = (c = Separator)"

text \<open>
  The backtracking loop of \<^verbatim>\<open>Clean\<close> on a \<open>..\<close> element, after \<^verbatim>\<open>out.w--\<close>:
  \<^verbatim>\<open>for out.w > dotdot && !os.IsPathSeparator(out.index(out.w)) { out.w-- }\<close>.
\<close>

function backtrack :: "string \<Rightarrow> nat \<Rightarrow> nat \<Rightarrow> nat" where
  "backtrack buf dotdot w =
     (if w > dotdot \<and> \<not> IsPathSeparator (buf ! w) then backtrack buf dotdot (w - 1) else w)"
  by pat_completeness auto
termination
  by (relation "measure (\<lambda>(buf, dotdot, w). w)") auto

declare backtrack.simps [simp del]

text \<open>
  The main loop of \<^verbatim>\<open>Clean\<close>. \<open>rest\<close> is \<^verbatim>\<open>path[r:]\<close>, \<open>out\<close> is the
  buffer written so far (\<^verbatim>\<open>out.w\<close> is its length), \<open>dotdot\<close> is the index where
  a \<open>..\<close> must stop.
\<close>

function clean_loop :: "bool \<Rightarrow> string \<Rightarrow> string \<Rightarrow> nat \<Rightarrow> string" where
  "clean_loop rooted [] out dotdot = out"
| "clean_loop rooted (c # cs) out dotdot =
     (if IsPathSeparator c then clean_loop rooted cs out dotdot
      else if c = CHR ''.'' \<and> (cs = [] \<or> IsPathSeparator (hd cs)) then
        clean_loop rooted cs out dotdot
      else if c = CHR ''.'' \<and> hd cs = CHR ''.'' \<and> (tl cs = [] \<or> IsPathSeparator (hd (tl cs))) then
        (if length out > dotdot then
           clean_loop rooted (tl cs) (take (backtrack out dotdot (length out - 1)) out) dotdot
         else if \<not> rooted then
           (let out' = (if length out > 0 then out @ [Separator] else out) @ ''..''
            in clean_loop rooted (tl cs) out' (length out'))
         else clean_loop rooted (tl cs) out dotdot)
      else
        (let out' = (if rooted \<and> length out \<noteq> 1 \<or> \<not> rooted \<and> length out \<noteq> 0
                     then out @ [Separator] else out)
         in clean_loop rooted (dropWhile (\<lambda>x. \<not> IsPathSeparator x) cs)
              (out' @ c # takeWhile (\<lambda>x. \<not> IsPathSeparator x) cs) dotdot))"
  by pat_completeness auto
termination
  by (relation "measure (\<lambda>(rooted, rest, out, dotdot). length rest)")
     (auto simp: less_Suc_eq_le length_dropWhile_le intro: le_trans [OF diff_le_self])

definition Clean :: "string \<Rightarrow> string" where
  "Clean path =
     (if path = [] then ''.''
      else
        (let rooted = IsPathSeparator (hd path);
             out = (if rooted then clean_loop True (tl path) [Separator] 1
                    else clean_loop False path [] 0)
         in if out = [] then ''.'' else out))"

text \<open>
  \<^verbatim>\<open>Dir\<close>: everything up to and including the last separator, cleaned.
\<close>

definition Dir :: "string \<Rightarrow> string" where
  "Dir path = Clean (rev (dropWhile (\<lambda>x. \<not> IsPathSeparator x) (rev path)))"

text \<open>
  \<^verbatim>\<open>Base\<close>: the last element of the path, after trailing separators are stripped.
\<close>

definition Base :: "string \<Rightarrow> string" where
  "Base path =
     (if path = [] then ''.''
      else
        (let stripped = rev (dropWhile IsPathSeparator (rev path));
             elem = rev (takeWhile (\<lambda>x. \<not> IsPathSeparator x) (rev stripped))
         in if elem = [] then [Separator] else elem))"

definition HasSuffix :: "string \<Rightarrow> string \<Rightarrow> bool" where
  "HasSuffix s suffix =
     (length s \<ge> length suffix \<and> drop (length s - length suffix) s = suffix)"

subsection \<open>Data: configuration, logger, events, hooks, manager\<close>

type_synonym go_int = "64 word"
type_synonym int64 = "64 word"
type_synonym time = nat

text \<open>
  Every \<^verbatim>\<open>fmt.Errorf\<close> of the file is a constructor that keeps the wrapped errors;
  \<open>ExternalError\<close> is an error value handed back by the operating system or by
  lumberjack.
\<close>

datatype error =
    ExternalError string
  | DirectoryEmpty
  | FilenameEmpty
  | MaxSizeNotPositive go_int
  | MaxAgeNegative go_int
  | MaxBackupsNegative go_int
  | InvalidOutputConfiguration error
  | SetupFileOutputFailed error
  | CreateLogDirectoryFailed string error
  | InvalidNewConfiguration error
  | CloseCurrentWriterFailed error
  | SetupNewFileOutputFailed error
  | NoFileWriterConfigured
  | RotationNotSupported
  | RotationAndRecoveryFailed error error
  | RotationFailedRecovered error
  | NotInFileMode
  | GetFileStatsFailed error

record OutputConfig =
  FilePath :: string
  MaxSize :: go_int
  MaxAge :: go_int
  MaxBackups :: go_int
  Compress :: bool
  LocalTime :: bool

text \<open>The fields of \<^verbatim>\<open>lumberjack.Logger\<close> that \<^verbatim>\<open>setupFileOutput\<close> fills.\<close>

record Logger =
  lj_Filename :: string
  lj_MaxSize :: go_int
  lj_MaxAge :: go_int
  lj_MaxBackups :: go_int
  lj_Compress :: bool
  lj_LocalTime :: bool

text \<open>
  An \<^verbatim>\<open>io.WriteCloser\<close> is a lumberjack logger or a value of some other type; the
  field \<^verbatim>\<open>fileWriter\<close> holds one or is nil.
\<close>

datatype WriteCloser = LumberjackLogger Logger | OtherWriteCloser nat

record RotationEvent =
  Timestamp :: time
  OldFile :: string
  NewFile :: string
  FileSize :: int64
  Success :: bool
  Error :: "error option"

text \<open>A Go call returns or panics; a hook is a function of the event with no result.\<close>

datatype call_outcome = Returns | Panics string

type_synonym RotationHook = "RotationEvent \<Rightarrow> call_outcome"

record OutputManager =
  config :: OutputConfig
  fileWriter :: "WriteCloser option"
  isFileMode :: bool
  rotationHooks :: "RotationHook list"
  lastRotation :: time
  rotationCount :: int64

subsection \<open>The world: actions, clock, environment\<close>

text \<open>
  A goroutine started by a \<^verbatim>\<open>go\<close> statement of the file: the dispatcher
  \<^verbatim>\<open>om.triggerRotationHooks(event)\<close> or the wrapper around one hook.
\<close>

datatype goroutine =
    Go_triggerRotationHooks RotationEvent
  | Go_hook RotationHook RotationEvent

datatype action =
    MuLock
  | MuUnlock
  | MuRLock
  | MuRUnlock
  | Sys_MkdirAll string
  | Sys_Stat string
  | Lj_Rotate Logger
  | Wc_Close WriteCloser
  | Go goroutine
  | Invoke RotationHook RotationEvent
  | Stderr string

record world =
  clock :: time
  trace :: "action list"

text \<open>
  The environment decides what each external call answers in a given world and how long
  each action takes. The world records everything done so far, so the answers may
  depend on the whole history.
\<close>

record env =
  mkdirall_result :: "world \<Rightarrow> string \<Rightarrow> error option"
  stat_result :: "world \<Rightarrow> string \<Rightarrow> error + int64"
  rotate_result :: "world \<Rightarrow> Logger \<Rightarrow> error option"
  close_result :: "world \<Rightarrow> WriteCloser \<Rightarrow> error option"
  elapsed :: "world \<Rightarrow> action \<Rightarrow> nat"

definition perform :: "env \<Rightarrow> action \<Rightarrow> world \<Rightarrow> world" where
  "perform e a w = w\<lparr>clock := clock w + elapsed e w a, trace := trace w @ [a]\<rparr>"

definition os_MkdirAll :: "env \<Rightarrow> string \<Rightarrow> world \<Rightarrow> error option \<times> world" where
  "os_MkdirAll e dir w = (mkdirall_result e w dir, perform e (Sys_MkdirAll dir) w)"

definition os_Stat :: "env \<Rightarrow> string \<Rightarrow> world \<Rightarrow> (error + int64) \<times> world" where
  "os_Stat e path w = (stat_result e w path, perform e (Sys_Stat path) w)"

definition Logger_Rotate :: "env \<Rightarrow> Logger \<Rightarrow> world \<Rightarrow> error option \<times> world" where
  "Logger_Rotate e lj w = (rotate_result e w lj, perform e (Lj_Rotate lj) w)"

definition WriteCloser_Close :: "env \<Rightarrow> WriteCloser \<Rightarrow> world \<Rightarrow> error option \<times> world" where
  "WriteCloser_Close e fw w = (close_result e w fw, perform e (Wc_Close fw) w)"

definition time_Now :: "world \<Rightarrow> time" where
  "time_Now w = clock w"

subsection \<open>Configuration and construction\<close>

definition DefaultMaxSize :: go_int where "DefaultMaxSize = 100"
definition DefaultMaxAge :: go_int where "DefaultMaxAge = 7"
definition DefaultMaxBackups :: go_int where "DefaultMaxBackups = 5"
definition DefaultCompress :: bool where "DefaultCompress = True"
definition DefaultLocalTime :: bool where "DefaultLocalTime = False"

definition NewOutputConfig :: "string \<Rightarrow> OutputConfig" where
  "NewOutputConfig filePath =
     \<lparr>FilePath = filePath, MaxSize = DefaultMaxSize, MaxAge = DefaultMaxAge,
      MaxBackups = DefaultMaxBackups, Compress = DefaultCompress,
      LocalTime = DefaultLocalTime\<rparr>"

text \<open>\<^verbatim>\<open>&OutputManager{config: c}\<close>: every other field has Go's zero value.\<close>

definition OutputManager_with :: "OutputConfig \<Rightarrow> OutputManager" where
  "OutputManager_with c =
     \<lparr>config = c, fileWriter = None, isFileMode = False, rotationHooks = [],
      lastRotation = 0, rotationCount = 0\<rparr>"

definition backslash :: string where
  "backslash = [CHR 0x5C]"

definition validateConfig :: "OutputManager \<Rightarrow> error option" where
  "validateConfig om =
     (let c = config om; path = FilePath c in
      if path \<noteq> [] \<and> (Dir path = [] \<or> Dir path = ''.'') then Some DirectoryEmpty
      else if path \<noteq> [] \<and> (HasSuffix path ''/'' \<or> HasSuffix path backslash) then
        Some FilenameEmpty
      else if path \<noteq> [] \<and> (Base path = [] \<or> Base path = ''.'' \<or> Base path = ''..'') then
        Some FilenameEmpty
      else if sint (MaxSize c) \<le> 0 then Some (MaxSizeNotPositive (MaxSize c))
      else if sint (MaxAge c) < 0 then Some (MaxAgeNegative (MaxAge c))
      else if sint (MaxBackups c) < 0 then Some (MaxBackupsNegative (MaxBackups c))
      else None)"

definition new_Logger :: "OutputConfig \<Rightarrow> Logger" where
  "new_Logger c =
     \<lparr>lj_Filename = FilePath c, lj_MaxSize = MaxSize c, lj_MaxAge = MaxAge c,
      lj_MaxBackups = MaxBackups c, lj_Compress = Compress c, lj_LocalTime = LocalTime c\<rparr>"

definition setupFileOutput ::
  "env \<Rightarrow> OutputManager \<Rightarrow> world \<Rightarrow> error option \<times> OutputManager \<times> world" where
  "setupFileOutput e om w =
     (let dir = Dir (FilePath (config om)) in
      case os_MkdirAll e dir w of
        (Some err, w1) \<Rightarrow> (Some (CreateLogDirectoryFailed dir err), om, w1)
      | (None, w1) \<Rightarrow>
          (None, om\<lparr>fileWriter := Some (LumberjackLogger (new_Logger (config om)))\<rparr>, w1))"

text \<open>
  \<^verbatim>\<open>NewOutputManager\<close> returns \<^verbatim>\<open>(nil, err)\<close> or \<^verbatim>\<open>(om, nil)\<close>: a sum.
\<close>

definition NewOutputManager ::
  "env \<Rightarrow> OutputConfig \<Rightarrow> world \<Rightarrow> (error + OutputManager) \<times> world" where
  "NewOutputManager e cfg w =
     (let om = OutputManager_with cfg in
      case validateConfig om of
        Some err \<Rightarrow> (Inl (InvalidOutputConfiguration err), w)
      | None \<Rightarrow>
          if FilePath cfg \<noteq> [] then
            (case setupFileOutput e om w of
               (Some err, om1, w1) \<Rightarrow> (Inl (SetupFileOutputFailed err), w1)
             | (None, om1, w1) \<Rightarrow> (Inr (om1\<lparr>isFileMode := True\<rparr>), w1))
          else (Inr om, w))"

definition Close :: "env \<Rightarrow> OutputManager \<Rightarrow> world \<Rightarrow> error option \<times> world" where
  "Close e om w =
     (case fileWriter om of
        Some fw \<Rightarrow> WriteCloser_Close e fw w
      | None \<Rightarrow> (None, w))"

definition GetConfig :: "OutputManager \<Rightarrow> OutputConfig" where
  "GetConfig om = config om"

definition IsFileMode :: "OutputManager \<Rightarrow> bool" where
  "IsFileMode om = isFileMode om"

definition GetFilePath :: "OutputManager \<Rightarrow> string" where
  "GetFilePath om = FilePath (config om)"

subsection \<open>UpdateConfig\<close>

text \<open>
  The tail of \<^verbatim>\<open>UpdateConfig\<close> (lines 217 to 228): store the new configuration,
  then set up the new file output if a path is given.
\<close>

definition UpdateConfig_rebind ::
  "env \<Rightarrow> OutputConfig \<Rightarrow> OutputManager \<Rightarrow> world \<Rightarrow> error option \<times> OutputManager \<times> world" where
  "UpdateConfig_rebind e newConfig om w =
     (let om1 = om\<lparr>config := newConfig\<rparr> in
      if FilePath newConfig \<noteq> [] then
        (case setupFileOutput e om1 w of
           (Some err, om2, w1) \<Rightarrow> (Some (SetupNewFileOutputFailed err), om2, w1)
         | (None, om2, w1) \<Rightarrow> (None, om2\<lparr>isFileMode := True\<rparr>, w1))
      else (None, om1, w))"

definition UpdateConfig ::
  "env \<Rightarrow> OutputConfig \<Rightarrow> OutputManager \<Rightarrow> world \<Rightarrow> error option \<times> OutputManager \<times> world" where
  "UpdateConfig e newConfig om w =
     (case validateConfig (OutputManager_with newConfig) of
        Some err \<Rightarrow> (Some (InvalidNewConfiguration err), om, w)
      | None \<Rightarrow>
          (case fileWriter om of
             Some fw \<Rightarrow>
               (case WriteCloser_Close e fw w of
                  (Some err, w1) \<Rightarrow> (Some (CloseCurrentWriterFailed err), om, w1)
                | (None, w1) \<Rightarrow>
                    UpdateConfig_rebind e newConfig
                      (om\<lparr>fileWriter := None, isFileMode := False\<rparr>) w1)
           | None \<Rightarrow> UpdateConfig_rebind e newConfig om w))"

subsection \<open>Hooks and their dispatch\<close>

definition AddRotationHook ::
  "env \<Rightarrow> RotationHook \<Rightarrow> OutputManager \<Rightarrow> world \<Rightarrow> OutputManager \<times> world" where
  "AddRotationHook e hook om w =
     (let w1 = perform e MuLock w;
          om1 = om\<lparr>rotationHooks := rotationHooks om @ [hook]\<rparr>
      in (om1, perform e MuUnlock w1))"

definition RemoveAllRotationHooks ::
  "env \<Rightarrow> OutputManager \<Rightarrow> world \<Rightarrow> OutputManager \<times> world" where
  "RemoveAllRotationHooks e om w =
     (let w1 = perform e MuLock w;
          om1 = om\<lparr>rotationHooks := []\<rparr>
      in (om1, perform e MuUnlock w1))"

text \<open>
  \<^verbatim>\<open>triggerRotationHooks\<close>: copy the hook list between \<^verbatim>\<open>RLock\<close> and
  \<^verbatim>\<open>RUnlock\<close>, then start one goroutine per copied hook.
\<close>

definition triggerRotationHooks ::
  "env \<Rightarrow> OutputManager \<Rightarrow> RotationEvent \<Rightarrow> world \<Rightarrow> world" where
  "triggerRotationHooks e om event w =
     (let w1 = perform e MuRLock w;
          hooks = rotationHooks om;
          w2 = perform e MuRUnlock w1
      in foldl (\<lambda>w' hook. perform e (Go (Go_hook hook event)) w') w2 hooks)"

text \<open>
  The body of the goroutine around one hook: \<^verbatim>\<open>h(event)\<close> under a deferred
  \<^verbatim>\<open>recover()\<close> that writes the panic value to standard error.
\<close>

definition hook_goroutine ::
  "env \<Rightarrow> RotationHook \<Rightarrow> RotationEvent \<Rightarrow> world \<Rightarrow> call_outcome \<times> world" where
  "hook_goroutine e h event w =
     (let w1 = perform e (Invoke h event) w in
      case h event of
        Returns \<Rightarrow> (Returns, w1)
      | Panics r \<Rightarrow>
          (Returns, perform e (Stderr (''Rotation hook panic: '' @ r @ [CHR 0x0A])) w1))"

text \<open>
  Running goroutines. A goroutine reads the manager as it is when it runs. A panic that
  leaves a goroutine ends the process: the goroutines after it never run and the result
  is \<open>None\<close>.
\<close>

fun run_goroutine ::
  "env \<Rightarrow> OutputManager \<Rightarrow> goroutine \<Rightarrow> world \<Rightarrow> call_outcome \<times> world" where
  "run_goroutine e om (Go_triggerRotationHooks event) w =
     (Returns, triggerRotationHooks e om event w)"
| "run_goroutine e om (Go_hook h event) w = hook_goroutine e h event w"

fun run_goroutines ::
  "env \<Rightarrow> OutputManager \<Rightarrow> goroutine list \<Rightarrow> world \<Rightarrow> world option" where
  "run_goroutines e om [] w = Some w"
| "run_goroutines e om (g # gs) w =
     (case run_goroutine e om g w of
        (Returns, w1) \<Rightarrow> run_goroutines e om gs w1
      | (Panics r, w1) \<Rightarrow> None)"

text \<open>What a stretch of the trace started and what it invoked.\<close>

fun spawned :: "action list \<Rightarrow> goroutine list" where
  "spawned [] = []"
| "spawned (Go g # as) = g # spawned as"
| "spawned (a # as) = spawned as"

fun invocations :: "action list \<Rightarrow> (RotationHook \<times> RotationEvent) list" where
  "invocations [] = []"
| "invocations (Invoke h ev # as) = (h, ev) # invocations as"
| "invocations (a # as) = invocations as"

text \<open>The actions a step added to the trace.\<close>

definition since :: "world \<Rightarrow> world \<Rightarrow> action list" where
  "since w w1 = drop (length (trace w)) (trace w1)"

text \<open>
  One dispatch, run to the end: the dispatcher goroutine, then the hook goroutines it
  started, in the order of their start.
\<close>

definition dispatch ::
  "env \<Rightarrow> OutputManager \<Rightarrow> RotationEvent \<Rightarrow> world \<Rightarrow> world option" where
  "dispatch e om event w =
     (let w1 = triggerRotationHooks e om event w
      in run_goroutines e om (spawned (since w w1)) w1)"

text \<open>What one hook goroutine adds to the trace.\<close>

definition hook_actions :: "RotationHook \<Rightarrow> RotationEvent \<Rightarrow> action list" where
  "hook_actions h event =
     (case h event of
        Returns \<Rightarrow> [Invoke h event]
      | Panics r \<Rightarrow> [Invoke h event, Stderr (''Rotation hook panic: '' @ r @ [CHR 0x0A])])"

subsection \<open>Rotation\<close>

definition GetRotationStats ::
  "env \<Rightarrow> OutputManager \<Rightarrow> world \<Rightarrow> (time \<times> int64) \<times> world" where
  "GetRotationStats e om w =
     (let w1 = perform e MuRLock w
      in ((lastRotation om, rotationCount om), perform e MuRUnlock w1))"

definition attemptRecovery ::
  "env \<Rightarrow> OutputManager \<Rightarrow> world \<Rightarrow> error option \<times> OutputManager \<times> world" where
  "attemptRecovery e om w =
     (let w1 = (case fileWriter om of
                  Some fw \<Rightarrow> snd (WriteCloser_Close e fw w)
                | None \<Rightarrow> w)
      in setupFileOutput e om w1)"

text \<open>
  \<^verbatim>\<open>RotateWithRecovery\<close>. The deferred \<^verbatim>\<open>Unlock\<close> is the last action of every
  return after \<^verbatim>\<open>Lock\<close>.
\<close>

definition RotateWithRecovery ::
  "env \<Rightarrow> OutputManager \<Rightarrow> world \<Rightarrow> error option \<times> OutputManager \<times> world" where
  "RotateWithRecovery e om w =
     (case fileWriter om of
        None \<Rightarrow> (Some NoFileWriterConfigured, om, w)
      | Some fw \<Rightarrow>
          (let w1 = perform e MuLock w in
           case fw of
             OtherWriteCloser n \<Rightarrow> (Some RotationNotSupported, om, perform e MuUnlock w1)
           | LumberjackLogger lj \<Rightarrow>
               (let (st, w2) = os_Stat e (FilePath (config om)) w1;
                    fileSize = (case st of Inr sz \<Rightarrow> sz | Inl serr \<Rightarrow> 0);
                    rotationTime = time_Now w2;
                    (err, w3) = Logger_Rotate e lj w2;
                    event = \<lparr>Timestamp = rotationTime,
                             OldFile = FilePath (config om),
                             NewFile = FilePath (config om),
                             FileSize = fileSize,
                             Success = (err = None),
                             Error = err\<rparr>;
                    om1 = (if err = None
                           then om\<lparr>lastRotation := rotationTime,
                                   rotationCount := rotationCount om + 1\<rparr>
                           else om);
                    w4 = perform e (Go (Go_triggerRotationHooks event)) w3
                in case err of
                     None \<Rightarrow> (None, om1, perform e MuUnlock w4)
                   | Some rotErr \<Rightarrow>
                       (case attemptRecovery e om1 w4 of
                          (Some recoveryErr, om2, w5) \<Rightarrow>
                            (Some (RotationAndRecoveryFailed rotErr recoveryErr), om2,
                             perform e MuUnlock w5)
                        | (None, om2, w5) \<Rightarrow>
                            (Some (RotationFailedRecovered rotErr), om2,
                             perform e MuUnlock w5)))))"

definition Rotate ::
  "env \<Rightarrow> OutputManager \<Rightarrow> world \<Rightarrow> error option \<times> OutputManager \<times> world" where
  "Rotate e om w = RotateWithRecovery e om w"

text \<open>
  \<^verbatim>\<open>ForceRotationIfNeeded\<close>: \<^verbatim>\<open>int64(om.config.MaxSize) * 1024 * 1024\<close> is a
  product of 64-bit integers and wraps; the comparison with the file size is signed.
\<close>

definition ForceRotationIfNeeded ::
  "env \<Rightarrow> OutputManager \<Rightarrow> world \<Rightarrow> error option \<times> OutputManager \<times> world" where
  "ForceRotationIfNeeded e om w =
     (if \<not> isFileMode om \<or> fileWriter om = None then (None, om, w)
      else
        (case os_Stat e (FilePath (config om)) w of
           (Inl err, w1) \<Rightarrow> (None, om, w1)
         | (Inr sz, w1) \<Rightarrow>
             (let maxSizeBytes = MaxSize (config om) * 1024 * 1024 in
              if sint sz \<ge> sint maxSizeBytes then RotateWithRecovery e om w1
              else (None, om, w1))))"

definition GetCurrentFileSize ::
  "env \<Rightarrow> OutputManager \<Rightarrow> world \<Rightarrow> (error + int64) \<times> world" where
  "GetCurrentFileSize e om w =
     (if \<not> isFileMode om then (Inl NotInFileMode, w)
      else
        (case os_Stat e (FilePath (config om)) w of
           (Inl err, w1) \<Rightarrow> (Inl (GetFileStatsFailed err), w1)
         | (Inr sz, w1) \<Rightarrow> (Inr sz, w1)))"

subsection \<open>Managers reachable through the public operations\<close>

text \<open>
  A manager is reachable when \<^verbatim>\<open>NewOutputManager\<close> returned it or a public method
  turned a reachable manager into it, in whatever world and under whatever environment
  each call was made. \<^verbatim>\<open>Close\<close> and the getters assign no field.
\<close>

inductive reachable :: "OutputManager \<Rightarrow> bool" where
  by_NewOutputManager:
    "NewOutputManager e cfg w = (Inr om, w1) \<Longrightarrow> reachable om"
| by_UpdateConfig:
    "reachable om \<Longrightarrow> UpdateConfig e cfg om w = (r, om1, w1) \<Longrightarrow> reachable om1"
| by_Rotate:
    "reachable om \<Longrightarrow> Rotate e om w = (r, om1, w1) \<Longrightarrow> reachable om1"
| by_RotateWithRecovery:
    "reachable om \<Longrightarrow> RotateWithRecovery e om w = (r, om1, w1) \<Longrightarrow> reachable om1"
| by_ForceRotationIfNeeded:
    "reachable om \<Longrightarrow> ForceRotationIfNeeded e om w = (r, om1, w1) \<Longrightarrow> reachable om1"
| by_AddRotationHook:
    "reachable om \<Longrightarrow> AddRotationHook e h om w = (om1, w1) \<Longrightarrow> reachable om1"
| by_RemoveAllRotationHooks:
    "reachable om \<Longrightarrow> RemoveAllRotationHooks e om w = (om1, w1) \<Longrightarrow> reachable om1"

text \<open>
  The stored configuration is valid, and the file writer is bound exactly in file mode,
  to a lumberjack logger made from the stored configuration.
\<close>

definition consistent :: "OutputManager \<Rightarrow> bool" where
  "consistent om =
     (validateConfig om = None \<and>
      (if isFileMode om
       then FilePath (config om) \<noteq> [] \<and>
            fileWriter om = Some (LumberjackLogger (new_Logger (config om)))
       else fileWriter om = None))"

text \<open>
  The world in which \<^verbatim>\<open>RotateWithRecovery\<close> calls \<^verbatim>\<open>lj.Rotate()\<close> (after
  \<^verbatim>\<open>Lock\<close> and \<^verbatim>\<open>os.Stat\<close>), and what the rotation primitive answers there.
\<close>

definition rotation_world :: "env \<Rightarrow> OutputManager \<Rightarrow> world \<Rightarrow> world" where
  "rotation_world e om w = snd (os_Stat e (FilePath (config om)) (perform e MuLock w))"

definition primitive_outcome :: "env \<Rightarrow> OutputManager \<Rightarrow> Logger \<Rightarrow> world \<Rightarrow> error option" where
  "primitive_outcome e om lj w = rotate_result e (rotation_world e om w) lj"

text \<open>The event \<^verbatim>\<open>RotateWithRecovery\<close> builds for a logger \<open>lj\<close> in world \<open>w\<close>.\<close>

definition rotation_event :: "env \<Rightarrow> OutputManager \<Rightarrow> Logger \<Rightarrow> world \<Rightarrow> RotationEvent" where
  "rotation_event e om lj w =
     \<lparr>Timestamp = clock (rotation_world e om w),
      OldFile = FilePath (config om),
      NewFile = FilePath (config om),
      FileSize = (case stat_result e (perform e MuLock w) (FilePath (config om)) of
                    Inr sz \<Rightarrow> sz | Inl serr \<Rightarrow> 0),
      Success = (primitive_outcome e om lj w = None),
      Error = primitive_outcome e om lj w\<rparr>"

text \<open>
  The world after the rotation primitive has answered and the dispatcher goroutine has
  been started: recovery, if any, begins here.
\<close>

definition dispatch_world :: "env \<Rightarrow> OutputManager \<Rightarrow> Logger \<Rightarrow> world \<Rightarrow> world" where
  "dispatch_world e om lj w =
     perform e (Go (Go_triggerRotationHooks (rotation_event e om lj w)))
       (perform e (Lj_Rotate lj) (rotation_world e om w))"

subsection \<open>Sample environments, configurations and managers\<close>

definition world0 :: world where
  "world0 = \<lparr>clock = 0, trace = []\<rparr>"

text \<open>Every external call succeeds, the file is empty, every action takes one tick.\<close>

definition env_ok :: env where
  "env_ok =
     \<lparr>mkdirall_result = (\<lambda>w dir. None),
      stat_result = (\<lambda>w path. Inr 0),
      rotate_result = (\<lambda>w lj. None),
      close_result = (\<lambda>w fw. None),
      elapsed = (\<lambda>w a. 1)\<rparr>"

text \<open>The directory \<open>/readonly\<close> cannot be created; everything else succeeds.\<close>

definition env_readonly :: env where
  "env_readonly =
     \<lparr>mkdirall_result = (\<lambda>w dir. if dir = ''/readonly''
                                  then Some (ExternalError ''permission denied'') else None),
      stat_result = (\<lambda>w path. Inr 0),
      rotate_result = (\<lambda>w lj. None),
      close_result = (\<lambda>w fw. None),
      elapsed = (\<lambda>w a. 1)\<rparr>"

text \<open>The rotation primitive fails; the file holds 2 MB; everything else succeeds.\<close>

definition env_rotate_fails :: env where
  "env_rotate_fails =
     \<lparr>mkdirall_result = (\<lambda>w dir. None),
      stat_result = (\<lambda>w path. Inr 2097152),
      rotate_result = (\<lambda>w lj. Some (ExternalError ''rename failed'')),
      close_result = (\<lambda>w fw. None),
      elapsed = (\<lambda>w a. 1)\<rparr>"

text \<open>The rotation primitive fails and no directory can be created.\<close>

definition env_broken :: env where
  "env_broken =
     \<lparr>mkdirall_result = (\<lambda>w dir. Some (ExternalError ''read-only file system'')),
      stat_result = (\<lambda>w path. Inl (ExternalError ''no such file'')),
      rotate_result = (\<lambda>w lj. Some (ExternalError ''rename failed'')),
      close_result = (\<lambda>w fw. None),
      elapsed = (\<lambda>w a. 1)\<rparr>"

text \<open>Closing a writer fails; everything else succeeds.\<close>

definition env_close_fails :: env where
  "env_close_fails =
     \<lparr>mkdirall_result = (\<lambda>w dir. None),
      stat_result = (\<lambda>w path. Inr 0),
      rotate_result = (\<lambda>w lj. None),
      close_result = (\<lambda>w fw. Some (ExternalError ''close failed'')),
      elapsed = (\<lambda>w a. 1)\<rparr>"

definition cfg_tmp :: OutputConfig where
  "cfg_tmp = NewOutputConfig ''/tmp/test.log''"

definition cfg_readonly :: OutputConfig where
  "cfg_readonly = NewOutputConfig ''/readonly/app.log''"

definition cfg_dotdot :: OutputConfig where
  "cfg_dotdot = NewOutputConfig ''/tmp/..''"

definition cfg_bare :: OutputConfig where
  "cfg_bare = NewOutputConfig ''app.log''"

definition cfg_zero_size :: OutputConfig where
  "cfg_zero_size = (NewOutputConfig ''/tmp/test.log'')\<lparr>MaxSize := 0\<rparr>"

text \<open>\<open>MaxSize = 2 ^ 43\<close> megabytes: the product with \<open>1024 * 1024\<close> is \<open>2 ^ 63\<close>.\<close>

definition cfg_huge :: OutputConfig where
  "cfg_huge = (NewOutputConfig ''/tmp/test.log'')\<lparr>MaxSize := 8796093022208\<rparr>"

text \<open>The manager \<^verbatim>\<open>NewOutputManager\<close> returns for a configuration with a file.\<close>

definition manager_for :: "OutputConfig \<Rightarrow> OutputManager" where
  "manager_for c =
     \<lparr>config = c, fileWriter = Some (LumberjackLogger (new_Logger c)), isFileMode = True,
      rotationHooks = [], lastRotation = 0, rotationCount = 0\<rparr>"

definition panicHook :: RotationHook where
  "panicHook = (\<lambda>event. Panics ''test panic in hook'')"

definition normalHook :: RotationHook where
  "normalHook = (\<lambda>event. Returns)"

definition sample_event :: RotationEvent where
  "sample_event =
     \<lparr>Timestamp = 3, OldFile = ''/tmp/test.log'', NewFile = ''/tmp/test.log'',
      FileSize = 0, Success = True, Error = None\<rparr>"

section \<open>Facts about the model\<close>

lemmas path_eval = Dir_def Base_def Clean_def HasSuffix_def IsPathSeparator_def Separator_def
  backtrack.simps backslash_def

lemmas cfg_eval = NewOutputConfig_def DefaultMaxSize_def DefaultMaxAge_def DefaultMaxBackups_def
  DefaultCompress_def DefaultLocalTime_def OutputManager_with_def manager_for_def new_Logger_def

subsection \<open>The world\<close>

lemma trace_perform [simp]: "trace (perform e a w) = trace w @ [a]"
  by (simp add: perform_def)

lemma clock_perform [simp]: "clock (perform e a w) = clock w + elapsed e w a"
  by (simp add: perform_def)

lemma since_append: "trace w1 = trace w @ xs \<Longrightarrow> since w w1 = xs"
  by (simp add: since_def)

lemma since_self [simp]: "since w w = []"
  by (simp add: since_def)

subsection \<open>Paths and validation\<close>

lemma Dir_no_separator: "CHR ''/'' \<notin> set path \<Longrightarrow> Dir path = ''.''"
proof -
  assume a: "CHR ''/'' \<notin> set path"
  then have "\<forall>x \<in> set (rev path). \<not> IsPathSeparator x"
    by (auto simp: IsPathSeparator_def Separator_def)
  then have "dropWhile (\<lambda>x. \<not> IsPathSeparator x) (rev path) = []"
    by (simp add: dropWhile_eq_Nil_conv)
  then show ?thesis by (simp add: Dir_def Clean_def)
qed

text \<open>
  For a path that does not end in \<open>/\<close>, \<^verbatim>\<open>Base\<close> is the text after the last
  \<open>/\<close>, and it is not empty.
\<close>

lemma Base_last_element:
  assumes "path \<noteq> []" "\<not> HasSuffix path ''/''"
  shows "Base path = rev (takeWhile (\<lambda>x. x \<noteq> CHR ''/'') (rev path))"
    and "Base path \<noteq> []"
proof -
  from assms have l: "last path \<noteq> CHR ''/''"
    by (cases path rule: rev_cases) (auto simp: HasSuffix_def)
  from assms(1) l have h: "hd (rev path) \<noteq> CHR ''/''" "rev path \<noteq> []"
    by (simp_all add: hd_rev)
  then have d: "dropWhile IsPathSeparator (rev path) = rev path"
    by (cases "rev path") (auto simp: IsPathSeparator_def Separator_def)
  from h have t: "takeWhile (\<lambda>x. \<not> IsPathSeparator x) (rev path) \<noteq> []"
    by (cases "rev path") (auto simp: IsPathSeparator_def Separator_def)
  show "Base path = rev (takeWhile (\<lambda>x. x \<noteq> CHR ''/'') (rev path))"
    using assms(1) d t by (simp add: Base_def Let_def IsPathSeparator_def Separator_def)
  show "Base path \<noteq> []"
    using assms(1) d t by (simp add: Base_def Let_def)
qed

lemma validateConfig_None_iff:
  "validateConfig om = None \<longleftrightarrow>
     (FilePath (config om) = [] \<or>
        Dir (FilePath (config om)) \<noteq> [] \<and> Dir (FilePath (config om)) \<noteq> ''.'' \<and>
        \<not> HasSuffix (FilePath (config om)) ''/'' \<and>
        \<not> HasSuffix (FilePath (config om)) backslash \<and>
        Base (FilePath (config om)) \<noteq> [] \<and> Base (FilePath (config om)) \<noteq> ''.'' \<and>
        Base (FilePath (config om)) \<noteq> ''..'') \<and>
     0 < sint (MaxSize (config om)) \<and> 0 \<le> sint (MaxAge (config om)) \<and>
     0 \<le> sint (MaxBackups (config om))"
  by (auto simp: validateConfig_def Let_def)

lemma validate_tmp: "validateConfig (OutputManager_with cfg_tmp) = None"
  by (simp add: validateConfig_def cfg_tmp_def cfg_eval path_eval Let_def)

subsection \<open>Setting up the file output, rotation in normal form\<close>

lemma setupFileOutput_cases:
  "setupFileOutput e om w =
     (case mkdirall_result e w (Dir (FilePath (config om))) of
        Some err \<Rightarrow> (Some (CreateLogDirectoryFailed (Dir (FilePath (config om))) err), om,
                     perform e (Sys_MkdirAll (Dir (FilePath (config om)))) w)
      | None \<Rightarrow> (None, om\<lparr>fileWriter := Some (LumberjackLogger (new_Logger (config om)))\<rparr>,
                 perform e (Sys_MkdirAll (Dir (FilePath (config om)))) w))"
  by (simp add: setupFileOutput_def os_MkdirAll_def Let_def split: option.splits)

lemma trace_rotation_world:
  "trace (rotation_world e om w) = trace w @ [MuLock, Sys_Stat (FilePath (config om))]"
  by (simp add: rotation_world_def os_Stat_def)

lemma clock_rotation_world: "clock w \<le> clock (rotation_world e om w)"
  by (simp add: rotation_world_def os_Stat_def)

lemma trace_dispatch_world:
  "trace (dispatch_world e om lj w) =
     trace w @ [MuLock, Sys_Stat (FilePath (config om)), Lj_Rotate lj,
                Go (Go_triggerRotationHooks (rotation_event e om lj w))]"
  by (simp add: dispatch_world_def trace_rotation_world)

lemma clock_dispatch_world: "clock (rotation_world e om w) \<le> clock (dispatch_world e om lj w)"
  by (simp add: dispatch_world_def)

lemma attemptRecovery_bound:
  "fileWriter om = Some fw \<Longrightarrow>
   attemptRecovery e om w = setupFileOutput e om (perform e (Wc_Close fw) w)"
  by (simp add: attemptRecovery_def WriteCloser_Close_def)

lemma RotateWithRecovery_lumberjack:
  assumes "fileWriter om = Some (LumberjackLogger lj)"
  shows "RotateWithRecovery e om w =
    (case primitive_outcome e om lj w of
       None \<Rightarrow>
         (None,
          om\<lparr>lastRotation := clock (rotation_world e om w),
             rotationCount := rotationCount om + 1\<rparr>,
          perform e MuUnlock (dispatch_world e om lj w))
     | Some rotErr \<Rightarrow>
         (case attemptRecovery e om (dispatch_world e om lj w) of
            (Some recoveryErr, om2, w5) \<Rightarrow>
              (Some (RotationAndRecoveryFailed rotErr recoveryErr), om2, perform e MuUnlock w5)
          | (None, om2, w5) \<Rightarrow>
              (Some (RotationFailedRecovered rotErr), om2, perform e MuUnlock w5)))"
  using assms
  by (simp add: RotateWithRecovery_def Let_def os_Stat_def Logger_Rotate_def time_Now_def
        primitive_outcome_def rotation_world_def dispatch_world_def rotation_event_def
      split: option.splits prod.splits sum.splits)

lemma RotateWithRecovery_other:
  "fileWriter om = Some (OtherWriteCloser n) \<Longrightarrow>
   RotateWithRecovery e om w =
     (Some RotationNotSupported, om, perform e MuUnlock (perform e MuLock w))"
  by (simp add: RotateWithRecovery_def Let_def)

lemma RotateWithRecovery_nil:
  "fileWriter om = None \<Longrightarrow> RotateWithRecovery e om w = (Some NoFileWriterConfigured, om, w)"
  by (simp add: RotateWithRecovery_def)

subsection \<open>Every public operation keeps the manager consistent\<close>

lemma consistent_NewOutputManager:
  "NewOutputManager e cfg w = (Inr om, w1) \<Longrightarrow> consistent om"
  by (auto simp: NewOutputManager_def Let_def setupFileOutput_cases consistent_def
        validateConfig_def OutputManager_with_def
      split: option.splits if_splits prod.splits)

lemma consistent_rebind:
  "validateConfig (OutputManager_with cfg) = None \<Longrightarrow> fileWriter om = None \<Longrightarrow>
   \<not> isFileMode om \<Longrightarrow> UpdateConfig_rebind e cfg om w = (r, om1, w1) \<Longrightarrow> consistent om1"
  by (auto simp: UpdateConfig_rebind_def Let_def setupFileOutput_cases consistent_def
        validateConfig_def OutputManager_with_def
      split: option.splits if_splits prod.splits)

lemma consistent_UpdateConfig:
  assumes c: "consistent om" and u: "UpdateConfig e cfg om w = (r, om1, w1)"
  shows "consistent om1"
proof (cases "validateConfig (OutputManager_with cfg)")
  case (Some err)
  with u c show ?thesis by (simp add: UpdateConfig_def)
next
  case None
  note valid = this
  show ?thesis
  proof (cases "fileWriter om")
    case None
    with c have "\<not> isFileMode om" by (auto simp: consistent_def split: if_splits)
    moreover from u valid None have "UpdateConfig_rebind e cfg om w = (r, om1, w1)"
      by (simp add: UpdateConfig_def)
    ultimately show ?thesis using valid None by (blast intro: consistent_rebind)
  next
    case (Some fw)
    show ?thesis
    proof (cases "close_result e w fw")
      case (Some cerr)
      with u valid \<open>fileWriter om = Some fw\<close> c show ?thesis
        by (simp add: UpdateConfig_def WriteCloser_Close_def)
    next
      case None
      with u valid \<open>fileWriter om = Some fw\<close>
      have "UpdateConfig_rebind e cfg (om\<lparr>fileWriter := None, isFileMode := False\<rparr>)
              (perform e (Wc_Close fw) w) = (r, om1, w1)"
        by (simp add: UpdateConfig_def WriteCloser_Close_def)
      then show ?thesis using valid by (rule consistent_rebind [rotated 3]) simp_all
    qed
  qed
qed

lemma consistent_RotateWithRecovery:
  assumes c: "consistent om" and u: "RotateWithRecovery e om w = (r, om1, w1)"
  shows "consistent om1"
proof (cases "fileWriter om")
  case None
  with u c show ?thesis by (simp add: RotateWithRecovery_nil)
next
  case (Some fw)
  with c have fw: "fileWriter om = Some (LumberjackLogger (new_Logger (config om)))"
    and fm: "isFileMode om" "FilePath (config om) \<noteq> []" and v: "validateConfig om = None"
    by (auto simp: consistent_def split: if_splits)
  from u show ?thesis
    unfolding RotateWithRecovery_lumberjack [OF fw] attemptRecovery_bound [OF fw]
      setupFileOutput_cases
    using fw fm v
    by (auto simp: consistent_def validateConfig_def split: option.splits)
qed

lemma consistent_ForceRotationIfNeeded:
  "consistent om \<Longrightarrow> ForceRotationIfNeeded e om w = (r, om1, w1) \<Longrightarrow> consistent om1"
  by (auto simp: ForceRotationIfNeeded_def Let_def os_Stat_def
      split: if_splits sum.splits dest: consistent_RotateWithRecovery)

lemma consistent_hooks:
  "consistent (om\<lparr>rotationHooks := hs\<rparr>) = consistent om"
  by (simp add: consistent_def validateConfig_def)

lemma reachable_consistent: "reachable om \<Longrightarrow> consistent om"
proof (induction rule: reachable.induct)
  case (by_NewOutputManager e cfg w om w1)
  then show ?case by (rule consistent_NewOutputManager)
next
  case (by_UpdateConfig om e cfg w r om1 w1)
  then show ?case by (blast intro: consistent_UpdateConfig)
next
  case (by_Rotate om e w r om1 w1)
  then show ?case by (auto simp: Rotate_def intro: consistent_RotateWithRecovery)
next
  case (by_RotateWithRecovery om e w r om1 w1)
  then show ?case by (blast intro: consistent_RotateWithRecovery)
next
  case (by_ForceRotationIfNeeded om e w r om1 w1)
  then show ?case by (blast intro: consistent_ForceRotationIfNeeded)
next
  case (by_AddRotationHook om e h w om1 w1)
  then show ?case by (auto simp: AddRotationHook_def Let_def consistent_hooks)
next
  case (by_RemoveAllRotationHooks om e w om1 w1)
  then show ?case by (auto simp: RemoveAllRotationHooks_def Let_def consistent_hooks)
qed

subsection \<open>The sample manager is the one the constructor returns\<close>

lemma NewOutputManager_tmp:
  "NewOutputManager env_ok cfg_tmp world0 =
     (Inr (manager_for cfg_tmp), perform env_ok (Sys_MkdirAll ''/tmp'') world0)"
proof -
  have d: "Dir (FilePath cfg_tmp) = ''/tmp''"
    by (simp add: cfg_tmp_def cfg_eval path_eval)
  have p: "FilePath cfg_tmp \<noteq> []" by (simp add: cfg_tmp_def cfg_eval)
  have m: "mkdirall_result env_ok world0 ''/tmp'' = None" by (simp add: env_ok_def)
  have v: "validateConfig (OutputManager_with cfg_tmp) = None" by (rule validate_tmp)
  have s: "setupFileOutput env_ok (OutputManager_with cfg_tmp) world0 =
        (None,
         (OutputManager_with cfg_tmp)\<lparr>fileWriter := Some (LumberjackLogger (new_Logger cfg_tmp))\<rparr>,
         perform env_ok (Sys_MkdirAll ''/tmp'') world0)"
    by (simp add: setupFileOutput_cases OutputManager_with_def d m)
  show ?thesis
    unfolding NewOutputManager_def Let_def v using p s
    by (simp add: manager_for_def OutputManager_with_def)
qed

lemma fileWriter_manager_for:
  "fileWriter (manager_for c) = Some (LumberjackLogger (new_Logger c))"
  by (simp add: manager_for_def)

lemma reachable_manager_tmp: "reachable (manager_for cfg_tmp)"
  by (rule by_NewOutputManager [OF NewOutputManager_tmp])

section \<open>The claims\<close>

subsection \<open>C5: when validation fails\<close>

text \<open>
  The claim as stated lists five ways to fail and says every other configuration passes.
  The configuration with path \<open>/tmp/..\<close> and the default numbers is in none of the
  five cases (its directory is \<open>/tmp\<close>, it does not end in a separator, the numbers
  are valid), and \<^verbatim>\<open>validateConfig\<close> rejects it: the third path check, on
  \<^verbatim>\<open>filepath.Base\<close>, is missing from the list.
\<close>

theorem validateConfig_dotdot_counterexample:
  "validateConfig (OutputManager_with cfg_dotdot) = Some FilenameEmpty \<and>
   FilePath cfg_dotdot = ''/tmp/..'' \<and>
   Dir (FilePath cfg_dotdot) = ''/tmp'' \<and>
   \<not> HasSuffix (FilePath cfg_dotdot) ''/'' \<and>
   \<not> HasSuffix (FilePath cfg_dotdot) backslash \<and>
   \<not> sint (MaxSize cfg_dotdot) \<le> 0 \<and>
   \<not> sint (MaxAge cfg_dotdot) < 0 \<and>
   \<not> sint (MaxBackups cfg_dotdot) < 0"
  by (simp add: validateConfig_def cfg_dotdot_def cfg_eval path_eval Let_def)

text \<open>
  Claim C5, amended. \<^verbatim>\<open>validateConfig\<close> fails exactly when: the path is non-empty
  and its directory (\<^verbatim>\<open>filepath.Dir\<close>) is empty or \<open>.\<close>; the path is non-empty and
  ends in \<open>/\<close> or in a backslash; the path is non-empty and its last element (the text
  after the last \<open>/\<close>) is \<open>.\<close> or \<open>..\<close>; \<open>MaxSize \<le> 0\<close>; \<open>MaxAge < 0\<close>; or
  \<open>MaxBackups < 0\<close>. Every other configuration passes, whatever \<open>Compress\<close> and
  \<open>LocalTime\<close> are.
\<close>

theorem validateConfig_fails_iff:
  "validateConfig om \<noteq> None \<longleftrightarrow>
     (FilePath (config om) \<noteq> [] \<and>
        (Dir (FilePath (config om)) = [] \<or> Dir (FilePath (config om)) = ''.'')) \<or>
     (FilePath (config om) \<noteq> [] \<and>
        (HasSuffix (FilePath (config om)) ''/'' \<or> HasSuffix (FilePath (config om)) backslash)) \<or>
     (FilePath (config om) \<noteq> [] \<and>
        (rev (takeWhile (\<lambda>x. x \<noteq> CHR ''/'') (rev (FilePath (config om)))) = ''.'' \<or>
         rev (takeWhile (\<lambda>x. x \<noteq> CHR ''/'') (rev (FilePath (config om)))) = ''..'')) \<or>
     sint (MaxSize (config om)) \<le> 0 \<or>
     sint (MaxAge (config om)) < 0 \<or>
     sint (MaxBackups (config om)) < 0"
proof (cases "FilePath (config om) \<noteq> [] \<and> \<not> HasSuffix (FilePath (config om)) ''/''")
  case True
  then have "Base (FilePath (config om)) =
      rev (takeWhile (\<lambda>x. x \<noteq> CHR ''/'') (rev (FilePath (config om))))"
    and "Base (FilePath (config om)) \<noteq> []"
    using Base_last_element [of "FilePath (config om)"] by blast+
  then show ?thesis
    unfolding validateConfig_None_iff by (auto simp: not_less not_le)
next
  case False
  then show ?thesis
    unfolding validateConfig_None_iff by (auto simp: not_less not_le)
qed

theorem validateConfig_fails_iff_witness:
  "validateConfig (OutputManager_with cfg_zero_size) \<noteq> None \<and>
   validateConfig (OutputManager_with cfg_dotdot) \<noteq> None \<and>
   validateConfig (OutputManager_with cfg_tmp) = None"
  using validateConfig_fails_iff [of "OutputManager_with cfg_zero_size"]
    validateConfig_fails_iff [of "OutputManager_with cfg_dotdot"]
    validateConfig_fails_iff [of "OutputManager_with cfg_tmp"]
  by (simp add: cfg_zero_size_def cfg_dotdot_def cfg_tmp_def cfg_eval path_eval)

subsection \<open>C9: a bare file name is rejected\<close>

text \<open>
  Claim C9. A configuration whose path is non-empty and has no \<open>/\<close> fails validation
  with the empty-directory error, since \<^verbatim>\<open>filepath.Dir\<close> of such a path is \<open>.\<close>;
  and every reachable manager in file mode has a path with a \<open>/\<close> in it, whose
  directory is neither empty nor \<open>.\<close>.
\<close>

theorem bare_filename_rejected:
  "(FilePath (config om) \<noteq> [] \<and> CHR ''/'' \<notin> set (FilePath (config om))
      \<longrightarrow> validateConfig om = Some DirectoryEmpty) \<and>
   (reachable om \<and> isFileMode om
      \<longrightarrow> CHR ''/'' \<in> set (FilePath (config om)) \<and>
          Dir (FilePath (config om)) \<noteq> [] \<and> Dir (FilePath (config om)) \<noteq> ''.'')"
proof (intro conjI impI)
  assume "FilePath (config om) \<noteq> [] \<and> CHR ''/'' \<notin> set (FilePath (config om))"
  then show "validateConfig om = Some DirectoryEmpty"
    by (simp add: validateConfig_def Let_def Dir_no_separator)
next
  assume a: "reachable om \<and> isFileMode om"
  then have "consistent om" by (simp add: reachable_consistent)
  with a have v: "validateConfig om = None" and p: "FilePath (config om) \<noteq> []"
    by (simp_all add: consistent_def)
  from v p show d1: "Dir (FilePath (config om)) \<noteq> []"
    and d2: "Dir (FilePath (config om)) \<noteq> ''.''"
    by (simp_all add: validateConfig_None_iff)
  from d2 show "CHR ''/'' \<in> set (FilePath (config om))"
    using Dir_no_separator by blast
qed

theorem bare_filename_rejected_witness:
  "validateConfig (OutputManager_with cfg_bare) = Some DirectoryEmpty \<and>
   reachable (manager_for cfg_tmp) \<and> isFileMode (manager_for cfg_tmp) \<and>
   CHR ''/'' \<in> set (FilePath (config (manager_for cfg_tmp)))"
  using bare_filename_rejected [of "OutputManager_with cfg_bare"]
    bare_filename_rejected [of "manager_for cfg_tmp"] reachable_manager_tmp
  by (simp add: cfg_bare_def cfg_tmp_def cfg_eval)

subsection \<open>C10: in file mode the writer is a lumberjack logger\<close>

text \<open>
  Claim C10. Every reachable manager in file mode holds a non-nil file writer, the
  lumberjack logger made from the current configuration; no reachable manager holds a
  writer of another type, so neither \<^verbatim>\<open>RotateWithRecovery\<close> nor \<^verbatim>\<open>Rotate\<close>
  can return the error "file writer does not support rotation".
\<close>

theorem file_mode_writer_is_lumberjack:
  "reachable om \<Longrightarrow>
     (isFileMode om \<longrightarrow>
        fileWriter om = Some (LumberjackLogger (new_Logger (config om)))) \<and>
     (\<forall>n. fileWriter om \<noteq> Some (OtherWriteCloser n)) \<and>
     fst (RotateWithRecovery e om w) \<noteq> Some RotationNotSupported \<and>
     fst (Rotate e om w) \<noteq> Some RotationNotSupported"
proof -
  assume "reachable om"
  then have c: "consistent om" by (rule reachable_consistent)
  show ?thesis
  proof (cases "isFileMode om")
    case True
    with c have fw: "fileWriter om = Some (LumberjackLogger (new_Logger (config om)))"
      by (simp add: consistent_def)
    have "fst (RotateWithRecovery e om w) \<noteq> Some RotationNotSupported"
      unfolding RotateWithRecovery_lumberjack [OF fw]
      by (simp split: option.splits prod.splits)
    with fw show ?thesis by (simp add: Rotate_def)
  next
    case False
    with c have "fileWriter om = None" by (simp add: consistent_def)
    with False show ?thesis by (simp add: Rotate_def RotateWithRecovery_nil)
  qed
qed

theorem file_mode_writer_is_lumberjack_witness:
  "reachable (manager_for cfg_tmp) \<and> isFileMode (manager_for cfg_tmp) \<and>
   fileWriter (manager_for cfg_tmp) = Some (LumberjackLogger (new_Logger cfg_tmp)) \<and>
   fst (Rotate env_rotate_fails (manager_for cfg_tmp) world0) \<noteq> Some RotationNotSupported"
  using file_mode_writer_is_lumberjack [OF reachable_manager_tmp, of env_rotate_fails world0]
    reachable_manager_tmp
  by (simp add: manager_for_def)

subsection \<open>C8: construction validates before it touches the file system\<close>

lemma validate_zero_size:
  "validateConfig (OutputManager_with cfg_zero_size) = Some (MaxSizeNotPositive 0)"
  by (simp add: validateConfig_def cfg_zero_size_def cfg_eval path_eval Let_def)

text \<open>
  Claim C8. For a configuration with \<open>MaxSize \<le> 0\<close>, \<open>MaxAge < 0\<close> or
  \<open>MaxBackups < 0\<close>, \<^verbatim>\<open>NewOutputManager\<close> fails and leaves the world as it was: no
  action, so no \<^verbatim>\<open>os.MkdirAll\<close>, was performed. It never constructs partially: when
  it returns a manager, the manager is consistent, holds the given configuration, empty
  hooks and zero statistics, is in file mode exactly when a path was given and then
  holds the logger for that path, after one successful \<^verbatim>\<open>os.MkdirAll\<close>; when it
  returns an error there is no manager, and the error is the validation error (world
  untouched) or the failure of the one \<^verbatim>\<open>os.MkdirAll\<close>.
\<close>

theorem NewOutputManager_validates_first:
  "(sint (MaxSize cfg) \<le> 0 \<or> sint (MaxAge cfg) < 0 \<or> sint (MaxBackups cfg) < 0 \<longrightarrow>
      (\<exists>err. NewOutputManager e cfg w = (Inl (InvalidOutputConfiguration err), w))) \<and>
   (\<forall>om w1. NewOutputManager e cfg w = (Inr om, w1) \<longrightarrow>
      consistent om \<and> config om = cfg \<and> isFileMode om = (FilePath cfg \<noteq> []) \<and>
      rotationHooks om = [] \<and> lastRotation om = 0 \<and> rotationCount om = 0 \<and>
      (if FilePath cfg = [] then fileWriter om = None \<and> w1 = w
       else fileWriter om = Some (LumberjackLogger (new_Logger cfg)) \<and>
            mkdirall_result e w (Dir (FilePath cfg)) = None \<and>
            since w w1 = [Sys_MkdirAll (Dir (FilePath cfg))])) \<and>
   (\<forall>err w1. NewOutputManager e cfg w = (Inl err, w1) \<longrightarrow>
      (\<exists>v. validateConfig (OutputManager_with cfg) = Some v \<and>
           err = InvalidOutputConfiguration v \<and> w1 = w) \<or>
      (\<exists>m. validateConfig (OutputManager_with cfg) = None \<and> FilePath cfg \<noteq> [] \<and>
           mkdirall_result e w (Dir (FilePath cfg)) = Some m \<and>
           err = SetupFileOutputFailed (CreateLogDirectoryFailed (Dir (FilePath cfg)) m) \<and>
           since w w1 = [Sys_MkdirAll (Dir (FilePath cfg))]))"
proof (intro conjI allI impI)
  assume "sint (MaxSize cfg) \<le> 0 \<or> sint (MaxAge cfg) < 0 \<or> sint (MaxBackups cfg) < 0"
  then have "validateConfig (OutputManager_with cfg) \<noteq> None"
    by (auto simp: validateConfig_None_iff OutputManager_with_def)
  then show "\<exists>err. NewOutputManager e cfg w = (Inl (InvalidOutputConfiguration err), w)"
    by (auto simp: NewOutputManager_def Let_def)
next
  fix om w1
  assume a: "NewOutputManager e cfg w = (Inr om, w1)"
  then show "consistent om" by (rule consistent_NewOutputManager)
  from a show "config om = cfg" "isFileMode om = (FilePath cfg \<noteq> [])"
    "rotationHooks om = []" "lastRotation om = 0" "rotationCount om = 0"
    by (auto simp: NewOutputManager_def Let_def setupFileOutput_cases OutputManager_with_def
        split: option.splits if_splits)
  from a show "if FilePath cfg = [] then fileWriter om = None \<and> w1 = w
       else fileWriter om = Some (LumberjackLogger (new_Logger cfg)) \<and>
            mkdirall_result e w (Dir (FilePath cfg)) = None \<and>
            since w w1 = [Sys_MkdirAll (Dir (FilePath cfg))]"
    by (auto simp: NewOutputManager_def Let_def setupFileOutput_cases OutputManager_with_def
        since_def split: option.splits if_splits)
next
  fix err w1
  assume a: "NewOutputManager e cfg w = (Inl err, w1)"
  then show "(\<exists>v. validateConfig (OutputManager_with cfg) = Some v \<and>
           err = InvalidOutputConfiguration v \<and> w1 = w) \<or>
      (\<exists>m. validateConfig (OutputManager_with cfg) = None \<and> FilePath cfg \<noteq> [] \<and>
           mkdirall_result e w (Dir (FilePath cfg)) = Some m \<and>
           err = SetupFileOutputFailed (CreateLogDirectoryFailed (Dir (FilePath cfg)) m) \<and>
           since w w1 = [Sys_MkdirAll (Dir (FilePath cfg))])"
    by (cases "validateConfig (OutputManager_with cfg)")
       (auto simp: NewOutputManager_def Let_def setupFileOutput_cases OutputManager_with_def
        since_def split: option.splits if_splits)
qed

theorem NewOutputManager_validates_first_witness:
  "sint (MaxSize cfg_zero_size) \<le> 0 \<and>
   NewOutputManager env_ok cfg_zero_size world0 =
     (Inl (InvalidOutputConfiguration (MaxSizeNotPositive 0)), world0) \<and>
   NewOutputManager env_ok cfg_tmp world0 =
     (Inr (manager_for cfg_tmp), perform env_ok (Sys_MkdirAll ''/tmp'') world0) \<and>
   consistent (manager_for cfg_tmp) \<and>
   since world0 (perform env_ok (Sys_MkdirAll ''/tmp'') world0) = [Sys_MkdirAll ''/tmp'']"
proof -
  have z: "sint (MaxSize cfg_zero_size) \<le> 0"
    by (simp add: cfg_zero_size_def cfg_eval)
  have d: "Dir (FilePath cfg_tmp) = ''/tmp''" "FilePath cfg_tmp \<noteq> []"
    by (simp_all add: cfg_tmp_def cfg_eval path_eval)
  from NewOutputManager_validates_first [of cfg_zero_size env_ok world0] z
  have "\<exists>err. NewOutputManager env_ok cfg_zero_size world0 =
      (Inl (InvalidOutputConfiguration err), world0)" by blast
  then have 1: "NewOutputManager env_ok cfg_zero_size world0 =
     (Inl (InvalidOutputConfiguration (MaxSizeNotPositive 0)), world0)"
    by (auto simp: NewOutputManager_def Let_def validate_zero_size)
  from NewOutputManager_validates_first [of cfg_tmp env_ok world0] NewOutputManager_tmp d
  have 2: "consistent (manager_for cfg_tmp) \<and>
     since world0 (perform env_ok (Sys_MkdirAll ''/tmp'') world0) = [Sys_MkdirAll ''/tmp'']"
    by simp
  from z 1 2 NewOutputManager_tmp show ?thesis by simp
qed

subsection \<open>C1: what a failed UpdateConfig leaves behind\<close>

lemma validate_readonly: "validateConfig (OutputManager_with cfg_readonly) = None"
  by (simp add: validateConfig_def cfg_readonly_def cfg_eval path_eval Let_def)

lemma Dir_readonly: "Dir (FilePath cfg_readonly) = ''/readonly''"
  by (simp add: cfg_readonly_def cfg_eval path_eval)

lemma UpdateConfig_readonly:
  "UpdateConfig env_readonly cfg_readonly (manager_for cfg_tmp) world0 =
     (Some (SetupNewFileOutputFailed
        (CreateLogDirectoryFailed ''/readonly'' (ExternalError ''permission denied''))),
      \<lparr>config = cfg_readonly, fileWriter = None, isFileMode = False, rotationHooks = [],
       lastRotation = 0, rotationCount = 0\<rparr>,
      perform env_readonly (Sys_MkdirAll ''/readonly'')
        (perform env_readonly (Wc_Close (LumberjackLogger (new_Logger cfg_tmp))) world0))"
proof -
  have c: "close_result env_readonly world0 (LumberjackLogger (new_Logger cfg_tmp)) = None"
    by (simp add: env_readonly_def)
  have m: "\<And>w. mkdirall_result env_readonly w ''/readonly'' = Some (ExternalError ''permission denied'')"
    by (simp add: env_readonly_def)
  have p: "FilePath cfg_readonly \<noteq> []" by (simp add: cfg_readonly_def cfg_eval)
  show ?thesis
    unfolding UpdateConfig_def validate_readonly
    by (simp add: manager_for_def WriteCloser_Close_def c UpdateConfig_rebind_def Let_def p
        setupFileOutput_cases Dir_readonly m)
qed

text \<open>
  The claim as stated says that after any failed \<^verbatim>\<open>UpdateConfig\<close> the stored
  configuration, the writer and the file-mode flag are what they were. Take the manager
  constructed for \<open>/tmp/test.log\<close> and update it to \<open>/readonly/app.log\<close> where
  \<^verbatim>\<open>os.MkdirAll\<close> of \<open>/readonly\<close> fails: the call returns the set-up error, and
  all three fields have changed.
\<close>

theorem UpdateConfig_rebind_failure_counterexample:
  "reachable (manager_for cfg_tmp) \<and>
   fst (UpdateConfig env_readonly cfg_readonly (manager_for cfg_tmp) world0) =
     Some (SetupNewFileOutputFailed
        (CreateLogDirectoryFailed ''/readonly'' (ExternalError ''permission denied''))) \<and>
   config (fst (snd (UpdateConfig env_readonly cfg_readonly (manager_for cfg_tmp) world0)))
     \<noteq> config (manager_for cfg_tmp) \<and>
   fileWriter (fst (snd (UpdateConfig env_readonly cfg_readonly (manager_for cfg_tmp) world0)))
     \<noteq> fileWriter (manager_for cfg_tmp) \<and>
   isFileMode (fst (snd (UpdateConfig env_readonly cfg_readonly (manager_for cfg_tmp) world0)))
     \<noteq> isFileMode (manager_for cfg_tmp)"
  using reachable_manager_tmp unfolding UpdateConfig_readonly
  by (simp add: manager_for_def cfg_readonly_def cfg_tmp_def NewOutputConfig_def)

text \<open>
  Claim C1, amended. A failed \<^verbatim>\<open>UpdateConfig\<close> is one of three cases. Validation of
  the new configuration failed: the manager and the world are untouched. Closing the
  current writer failed: the manager is untouched (only the close was performed). Setting
  up the new file output failed, after validation and the close, if any, succeeded: the
  new configuration is already stored, and where a writer was bound it has been closed
  and dropped and the file-mode flag is false. So the stored configuration is replaced
  once validation and close have succeeded, before the rebind is attempted.
\<close>

theorem UpdateConfig_failure:
  assumes "UpdateConfig e newConfig om w = (Some err, om1, w1)"
  shows "(\<exists>v. validateConfig (OutputManager_with newConfig) = Some v \<and>
              err = InvalidNewConfiguration v \<and> om1 = om \<and> w1 = w) \<or>
         (\<exists>fw c. validateConfig (OutputManager_with newConfig) = None \<and>
              fileWriter om = Some fw \<and> close_result e w fw = Some c \<and>
              err = CloseCurrentWriterFailed c \<and> om1 = om \<and> since w w1 = [Wc_Close fw]) \<or>
         (\<exists>s. validateConfig (OutputManager_with newConfig) = None \<and>
              (\<forall>fw. fileWriter om = Some fw \<longrightarrow> close_result e w fw = None) \<and>
              FilePath newConfig \<noteq> [] \<and>
              err = SetupNewFileOutputFailed s \<and>
              om1 = (if fileWriter om = None then om
                     else om\<lparr>fileWriter := None, isFileMode := False\<rparr>)\<lparr>config := newConfig\<rparr>)"
proof (cases "validateConfig (OutputManager_with newConfig)")
  case (Some v)
  with assms show ?thesis by (simp add: UpdateConfig_def)
next
  case None
  note valid = this
  show ?thesis
  proof (cases "fileWriter om")
    case None
    with assms valid show ?thesis
      by (auto simp: UpdateConfig_def UpdateConfig_rebind_def Let_def setupFileOutput_cases
          split: if_splits option.splits)
  next
    case (Some fw)
    show ?thesis
    proof (cases "close_result e w fw")
      case (Some c)
      with assms valid \<open>fileWriter om = Some fw\<close> show ?thesis
        by (auto simp: UpdateConfig_def WriteCloser_Close_def since_def)
    next
      case None
      with assms valid \<open>fileWriter om = Some fw\<close> show ?thesis
        by (auto simp: UpdateConfig_def WriteCloser_Close_def UpdateConfig_rebind_def Let_def
            setupFileOutput_cases split: if_splits option.splits)
    qed
  qed
qed

theorem UpdateConfig_failure_witness:
  "UpdateConfig env_ok cfg_zero_size (manager_for cfg_tmp) world0 =
     (Some (InvalidNewConfiguration (MaxSizeNotPositive 0)), manager_for cfg_tmp, world0) \<and>
   UpdateConfig env_close_fails cfg_readonly (manager_for cfg_tmp) world0 =
     (Some (CloseCurrentWriterFailed (ExternalError ''close failed'')), manager_for cfg_tmp,
      perform env_close_fails (Wc_Close (LumberjackLogger (new_Logger cfg_tmp))) world0) \<and>
   UpdateConfig env_readonly cfg_readonly (manager_for cfg_tmp) world0 =
     (Some (SetupNewFileOutputFailed
        (CreateLogDirectoryFailed ''/readonly'' (ExternalError ''permission denied''))),
      (manager_for cfg_tmp)\<lparr>fileWriter := None, isFileMode := False, config := cfg_readonly\<rparr>,
      perform env_readonly (Sys_MkdirAll ''/readonly'')
        (perform env_readonly (Wc_Close (LumberjackLogger (new_Logger cfg_tmp))) world0))"
proof -
  let ?om = "manager_for cfg_tmp"
  have 1: "UpdateConfig env_ok cfg_zero_size ?om world0 =
     (Some (InvalidNewConfiguration (MaxSizeNotPositive 0)), ?om, world0)"
    by (simp add: UpdateConfig_def validate_zero_size)
  have c: "close_result env_close_fails world0 (LumberjackLogger (new_Logger cfg_tmp)) =
      Some (ExternalError ''close failed'')"
    by (simp add: env_close_fails_def)
  have 2: "UpdateConfig env_close_fails cfg_readonly ?om world0 =
     (Some (CloseCurrentWriterFailed (ExternalError ''close failed'')), ?om,
      perform env_close_fails (Wc_Close (LumberjackLogger (new_Logger cfg_tmp))) world0)"
    by (simp add: UpdateConfig_def validate_readonly fileWriter_manager_for
        WriteCloser_Close_def c)
  have 3: "\<lparr>config = cfg_readonly, fileWriter = None, isFileMode = False, rotationHooks = [],
       lastRotation = 0, rotationCount = 0\<rparr> =
     ?om\<lparr>fileWriter := None, isFileMode := False, config := cfg_readonly\<rparr>"
    by (simp add: manager_for_def)
  from UpdateConfig_failure [OF 1] UpdateConfig_failure [OF 2]
    UpdateConfig_failure [OF UpdateConfig_readonly]
  show ?thesis using 1 2 3 UpdateConfig_readonly by simp
qed

subsection \<open>C2: rotation failure and recovery\<close>

lemma RotateWithRecovery_failed:
  assumes fw: "fileWriter om = Some (LumberjackLogger lj)"
    and r: "primitive_outcome e om lj w = Some rotErr"
  shows "RotateWithRecovery e om w =
    (case mkdirall_result e (perform e (Wc_Close (LumberjackLogger lj)) (dispatch_world e om lj w))
            (Dir (FilePath (config om))) of
       Some m \<Rightarrow>
         (Some (RotationAndRecoveryFailed rotErr
                  (CreateLogDirectoryFailed (Dir (FilePath (config om))) m)),
          om,
          perform e MuUnlock (perform e (Sys_MkdirAll (Dir (FilePath (config om))))
            (perform e (Wc_Close (LumberjackLogger lj)) (dispatch_world e om lj w))))
     | None \<Rightarrow>
         (Some (RotationFailedRecovered rotErr),
          om\<lparr>fileWriter := Some (LumberjackLogger (new_Logger (config om)))\<rparr>,
          perform e MuUnlock (perform e (Sys_MkdirAll (Dir (FilePath (config om))))
            (perform e (Wc_Close (LumberjackLogger lj)) (dispatch_world e om lj w)))))"
  unfolding RotateWithRecovery_lumberjack [OF fw] r attemptRecovery_bound [OF fw]
    setupFileOutput_cases
  by (simp split: option.splits)

text \<open>
  Claim C2. With no file writer bound, \<^verbatim>\<open>RotateWithRecovery\<close> fails at once with "no
  file writer configured" and touches nothing. It returns no error exactly when the
  writer is a lumberjack logger and its \<^verbatim>\<open>Rotate\<close> succeeded. When the primitive
  reports a failure, recovery follows: the writer is closed and \<^verbatim>\<open>setupFileOutput\<close>
  is run on the current configuration (the trace shows the close and the
  \<^verbatim>\<open>os.MkdirAll\<close> after the rotation). If recovery fails, the result is the
  composite error holding the rotation error and the recovery error; if it succeeds, the
  result is the error that holds the rotation error, and the writer is a new logger made
  from the current configuration.
\<close>

theorem RotateWithRecovery_outcomes:
  "(fileWriter om = None \<longrightarrow>
      RotateWithRecovery e om w = (Some NoFileWriterConfigured, om, w)) \<and>
   (fst (RotateWithRecovery e om w) = None \<longleftrightarrow>
      (\<exists>lj. fileWriter om = Some (LumberjackLogger lj) \<and> primitive_outcome e om lj w = None)) \<and>
   (\<forall>lj rotErr.
      fileWriter om = Some (LumberjackLogger lj) \<and> primitive_outcome e om lj w = Some rotErr \<longrightarrow>
      (\<exists>res om1 w1.
         RotateWithRecovery e om w = (Some res, om1, w1) \<and>
         since w w1 =
           [MuLock, Sys_Stat (FilePath (config om)), Lj_Rotate lj,
            Go (Go_triggerRotationHooks (rotation_event e om lj w)),
            Wc_Close (LumberjackLogger lj), Sys_MkdirAll (Dir (FilePath (config om))),
            MuUnlock] \<and>
         (case fst (attemptRecovery e om (dispatch_world e om lj w)) of
            Some recoveryErr \<Rightarrow>
              res = RotationAndRecoveryFailed rotErr recoveryErr \<and> om1 = om
          | None \<Rightarrow>
              res = RotationFailedRecovered rotErr \<and>
              om1 = om\<lparr>fileWriter := Some (LumberjackLogger (new_Logger (config om)))\<rparr>)))"
proof (intro conjI allI impI)
  assume "fileWriter om = None"
  then show "RotateWithRecovery e om w = (Some NoFileWriterConfigured, om, w)"
    by (rule RotateWithRecovery_nil)
next
  show "fst (RotateWithRecovery e om w) = None \<longleftrightarrow>
      (\<exists>lj. fileWriter om = Some (LumberjackLogger lj) \<and> primitive_outcome e om lj w = None)"
  proof (cases "fileWriter om")
    case None
    then show ?thesis by (simp add: RotateWithRecovery_nil)
  next
    case (Some fw)
    show ?thesis
    proof (cases fw)
      case (LumberjackLogger lj)
      with Some have fw: "fileWriter om = Some (LumberjackLogger lj)" by simp
      show ?thesis
        unfolding RotateWithRecovery_lumberjack [OF fw]
        using fw by (simp split: option.splits prod.splits)
    next
      case (OtherWriteCloser n)
      with Some show ?thesis by (simp add: RotateWithRecovery_other)
    qed
  qed
next
  fix lj rotErr
  assume a: "fileWriter om = Some (LumberjackLogger lj) \<and>
     primitive_outcome e om lj w = Some rotErr"
  then have fw: "fileWriter om = Some (LumberjackLogger lj)"
    and r: "primitive_outcome e om lj w = Some rotErr" by simp_all
  let ?w5 = "perform e (Wc_Close (LumberjackLogger lj)) (dispatch_world e om lj w)"
  let ?dir = "Dir (FilePath (config om))"
  have t: "trace (perform e MuUnlock (perform e (Sys_MkdirAll ?dir) ?w5)) =
      trace w @ [MuLock, Sys_Stat (FilePath (config om)), Lj_Rotate lj,
            Go (Go_triggerRotationHooks (rotation_event e om lj w)),
            Wc_Close (LumberjackLogger lj), Sys_MkdirAll ?dir, MuUnlock]"
    by (simp add: trace_dispatch_world)
  show "\<exists>res om1 w1.
         RotateWithRecovery e om w = (Some res, om1, w1) \<and>
         since w w1 =
           [MuLock, Sys_Stat (FilePath (config om)), Lj_Rotate lj,
            Go (Go_triggerRotationHooks (rotation_event e om lj w)),
            Wc_Close (LumberjackLogger lj), Sys_MkdirAll (Dir (FilePath (config om))),
            MuUnlock] \<and>
         (case fst (attemptRecovery e om (dispatch_world e om lj w)) of
            Some recoveryErr \<Rightarrow>
              res = RotationAndRecoveryFailed rotErr recoveryErr \<and> om1 = om
          | None \<Rightarrow>
              res = RotationFailedRecovered rotErr \<and>
              om1 = om\<lparr>fileWriter := Some (LumberjackLogger (new_Logger (config om)))\<rparr>)"
  proof (cases "mkdirall_result e ?w5 ?dir")
    case None
    then show ?thesis
      unfolding RotateWithRecovery_failed [OF fw r] attemptRecovery_bound [OF fw]
        setupFileOutput_cases
      using since_append [OF t] by simp
  next
    case (Some m)
    then show ?thesis
      unfolding RotateWithRecovery_failed [OF fw r] attemptRecovery_bound [OF fw]
        setupFileOutput_cases
      using since_append [OF t] by simp
  qed
qed

theorem RotateWithRecovery_outcomes_witness:
  "fileWriter (manager_for cfg_tmp) = Some (LumberjackLogger (new_Logger cfg_tmp)) \<and>
   primitive_outcome env_rotate_fails (manager_for cfg_tmp) (new_Logger cfg_tmp) world0 =
     Some (ExternalError ''rename failed'') \<and>
   fst (RotateWithRecovery env_rotate_fails (manager_for cfg_tmp) world0) =
     Some (RotationFailedRecovered (ExternalError ''rename failed'')) \<and>
   fst (RotateWithRecovery env_broken (manager_for cfg_tmp) world0) =
     Some (RotationAndRecoveryFailed (ExternalError ''rename failed'')
        (CreateLogDirectoryFailed ''/tmp'' (ExternalError ''read-only file system''))) \<and>
   fst (RotateWithRecovery env_ok (manager_for cfg_tmp) world0) = None"
proof -
  let ?om = "manager_for cfg_tmp" and ?lj = "new_Logger cfg_tmp"
  note fw = fileWriter_manager_for [of cfg_tmp]
  have d: "Dir (FilePath (config ?om)) = ''/tmp''"
    by (simp add: manager_for_def cfg_tmp_def NewOutputConfig_def path_eval)
  have p1: "primitive_outcome env_rotate_fails ?om ?lj world0 = Some (ExternalError ''rename failed'')"
    by (simp add: primitive_outcome_def env_rotate_fails_def)
  have p2: "primitive_outcome env_broken ?om ?lj world0 = Some (ExternalError ''rename failed'')"
    by (simp add: primitive_outcome_def env_broken_def)
  have p3: "primitive_outcome env_ok ?om ?lj world0 = None"
    by (simp add: primitive_outcome_def env_ok_def)
  have r1: "fst (attemptRecovery env_rotate_fails ?om (dispatch_world env_rotate_fails ?om ?lj world0)) = None"
    by (simp add: attemptRecovery_bound [OF fw] setupFileOutput_cases env_rotate_fails_def)
  have r2: "fst (attemptRecovery env_broken ?om (dispatch_world env_broken ?om ?lj world0)) =
      Some (CreateLogDirectoryFailed ''/tmp'' (ExternalError ''read-only file system''))"
  proof -
    have m: "\<And>w dir. mkdirall_result env_broken w dir = Some (ExternalError ''read-only file system'')"
      by (simp add: env_broken_def)
    show ?thesis
      by (simp add: attemptRecovery_bound [OF fw] setupFileOutput_cases m d)
  qed
  from RotateWithRecovery_outcomes [of ?om env_rotate_fails world0] fw p1 r1
  have 1: "fst (RotateWithRecovery env_rotate_fails ?om world0) =
     Some (RotationFailedRecovered (ExternalError ''rename failed''))"
    by fastforce
  from RotateWithRecovery_outcomes [of ?om env_broken world0] fw p2 r2
  have 2: "fst (RotateWithRecovery env_broken ?om world0) =
     Some (RotationAndRecoveryFailed (ExternalError ''rename failed'')
        (CreateLogDirectoryFailed ''/tmp'' (ExternalError ''read-only file system'')))"
    by fastforce
  from RotateWithRecovery_outcomes [of ?om env_ok world0] fw p3
  have 3: "fst (RotateWithRecovery env_ok ?om world0) = None"
    by blast
  from fw p1 1 2 3 show ?thesis by simp
qed

subsection \<open>C4: rotation statistics\<close>

lemma sint_succ_int64:
  fixes x :: int64
  assumes "sint x < 2 ^ 63 - 1"
  shows "sint (x + 1) = sint x + 1"
proof -
  have lo: "- (2 ^ 63) \<le> sint x" using sint_ge [of x] by simp
  have "sint (x + 1) = signed_take_bit 63 (sint x + 1)"
    by (simp add: sint_word_ariths)
  also have "\<dots> = sint x + 1"
    using lo assms by (intro signed_take_bit_int_eq_self) simp_all
  finally show ?thesis .
qed

text \<open>
  Claim C4. In a rotation attempt (the writer is a lumberjack logger, so the primitive is
  called): if the primitive succeeds, \<^verbatim>\<open>rotationCount\<close> is its old value plus one
  (as an \<^verbatim>\<open>int64\<close>; plus one as a number too unless the count was the largest
  \<^verbatim>\<open>int64\<close>) and \<^verbatim>\<open>lastRotation\<close> is the timestamp of the event, read from the
  clock during the call, at or after the clock at the start of the call; if the
  primitive fails, both are unchanged. The call is one critical section: its actions
  begin with \<^verbatim>\<open>Lock\<close>, end with \<^verbatim>\<open>Unlock\<close> and hold no other \<^verbatim>\<open>Lock\<close> or
  \<^verbatim>\<open>Unlock\<close>, so both statistics change inside it. When the primitive is not
  called, both are unchanged.
\<close>

theorem rotation_statistics:
  assumes "RotateWithRecovery e om w = (res, om1, w1)"
  shows "(\<forall>lj. fileWriter om = Some (LumberjackLogger lj) \<longrightarrow>
           (primitive_outcome e om lj w = None \<longrightarrow>
              rotationCount om1 = rotationCount om + 1 \<and>
              (sint (rotationCount om) < 2 ^ 63 - 1 \<longrightarrow>
                 sint (rotationCount om1) = sint (rotationCount om) + 1) \<and>
              lastRotation om1 = Timestamp (rotation_event e om lj w) \<and>
              clock w \<le> lastRotation om1 \<and> lastRotation om1 \<le> clock w1) \<and>
           (primitive_outcome e om lj w \<noteq> None \<longrightarrow>
              rotationCount om1 = rotationCount om \<and> lastRotation om1 = lastRotation om) \<and>
           Lj_Rotate lj \<in> set (since w w1) \<and>
           Go (Go_triggerRotationHooks (rotation_event e om lj w)) \<in> set (since w w1) \<and>
           hd (since w w1) = MuLock \<and> last (since w w1) = MuUnlock \<and>
           MuLock \<notin> set (tl (since w w1)) \<and> MuUnlock \<notin> set (butlast (since w w1))) \<and>
         ((\<forall>lj. fileWriter om \<noteq> Some (LumberjackLogger lj)) \<longrightarrow>
            rotationCount om1 = rotationCount om \<and> lastRotation om1 = lastRotation om)"
proof (intro conjI allI impI)
  assume "\<forall>lj. fileWriter om \<noteq> Some (LumberjackLogger lj)"
  then have "fileWriter om = None \<or> (\<exists>n. fileWriter om = Some (OtherWriteCloser n))"
    by (cases "fileWriter om") (auto intro: WriteCloser.exhaust)
  with assms show "rotationCount om1 = rotationCount om" "lastRotation om1 = lastRotation om"
    by (auto simp: RotateWithRecovery_nil RotateWithRecovery_other)
next
  fix lj
  assume fw: "fileWriter om = Some (LumberjackLogger lj)"
  let ?dir = "Dir (FilePath (config om))"
  let ?w5 = "perform e (Wc_Close (LumberjackLogger lj)) (dispatch_world e om lj w)"
  have ok: "primitive_outcome e om lj w = None \<Longrightarrow>
      om1 = om\<lparr>lastRotation := clock (rotation_world e om w),
               rotationCount := rotationCount om + 1\<rparr> \<and>
      w1 = perform e MuUnlock (dispatch_world e om lj w)"
    using assms unfolding RotateWithRecovery_lumberjack [OF fw] by simp
  have bad: "primitive_outcome e om lj w \<noteq> None \<Longrightarrow>
      (om1 = om \<or> om1 = om\<lparr>fileWriter := Some (LumberjackLogger (new_Logger (config om)))\<rparr>) \<and>
      w1 = perform e MuUnlock (perform e (Sys_MkdirAll ?dir) ?w5)"
    using assms
    unfolding RotateWithRecovery_lumberjack [OF fw] attemptRecovery_bound [OF fw]
      setupFileOutput_cases
    by (auto split: option.splits)
  have s: "since w w1 =
      [MuLock, Sys_Stat (FilePath (config om)), Lj_Rotate lj,
       Go (Go_triggerRotationHooks (rotation_event e om lj w))] @
      (if primitive_outcome e om lj w = None then [MuUnlock]
       else [Wc_Close (LumberjackLogger lj), Sys_MkdirAll ?dir, MuUnlock])"
    using ok bad by (cases "primitive_outcome e om lj w = None")
      (auto intro!: since_append simp: trace_dispatch_world)
  show "Lj_Rotate lj \<in> set (since w w1)"
    "Go (Go_triggerRotationHooks (rotation_event e om lj w)) \<in> set (since w w1)"
    "hd (since w w1) = MuLock" "last (since w w1) = MuUnlock"
    "MuLock \<notin> set (tl (since w w1))" "MuUnlock \<notin> set (butlast (since w w1))"
    unfolding s by simp_all
  {
    assume p: "primitive_outcome e om lj w = None"
    from ok [OF p] show "rotationCount om1 = rotationCount om + 1" by simp
    from ok [OF p] show "lastRotation om1 = Timestamp (rotation_event e om lj w)"
      by (simp add: rotation_event_def)
    from ok [OF p] show "clock w \<le> lastRotation om1"
      by (simp add: clock_rotation_world)
    from ok [OF p] show "lastRotation om1 \<le> clock w1"
      using clock_dispatch_world [of e om w lj] by simp
    {
      assume "sint (rotationCount om) < 2 ^ 63 - 1"
      then show "sint (rotationCount om1) = sint (rotationCount om) + 1"
        using ok [OF p] by (simp add: sint_succ_int64)
    }
  }
  {
    assume p: "primitive_outcome e om lj w \<noteq> None"
    from bad [OF p] show "rotationCount om1 = rotationCount om"
      "lastRotation om1 = lastRotation om" by auto
  }
qed

lemma RotateWithRecovery_ok_tmp:
  "RotateWithRecovery env_ok (manager_for cfg_tmp) world0 =
     (None, (manager_for cfg_tmp)\<lparr>lastRotation := 2, rotationCount := 1\<rparr>,
      perform env_ok MuUnlock
        (dispatch_world env_ok (manager_for cfg_tmp) (new_Logger cfg_tmp) world0))"
proof -
  have p: "primitive_outcome env_ok (manager_for cfg_tmp) (new_Logger cfg_tmp) world0 = None"
    by (simp add: primitive_outcome_def env_ok_def)
  have c: "clock (rotation_world env_ok (manager_for cfg_tmp) world0) = 2"
    by (simp add: rotation_world_def os_Stat_def) (simp add: env_ok_def world0_def)
  show ?thesis
    unfolding RotateWithRecovery_lumberjack [OF fileWriter_manager_for] p c
    by (simp add: manager_for_def)
qed

theorem rotation_statistics_witness:
  "fileWriter (manager_for cfg_tmp) = Some (LumberjackLogger (new_Logger cfg_tmp)) \<and>
   primitive_outcome env_ok (manager_for cfg_tmp) (new_Logger cfg_tmp) world0 = None \<and>
   sint (rotationCount (manager_for cfg_tmp)) < 2 ^ 63 - 1 \<and>
   rotationCount (fst (snd (RotateWithRecovery env_ok (manager_for cfg_tmp) world0))) = 1 \<and>
   lastRotation (fst (snd (RotateWithRecovery env_ok (manager_for cfg_tmp) world0))) = 2 \<and>
   clock world0 \<le> 2"
proof -
  have p: "primitive_outcome env_ok (manager_for cfg_tmp) (new_Logger cfg_tmp) world0 = None"
    by (simp add: primitive_outcome_def env_ok_def)
  have c: "sint (rotationCount (manager_for cfg_tmp)) < 2 ^ 63 - 1"
    by (simp add: manager_for_def)
  from rotation_statistics [OF RotateWithRecovery_ok_tmp] fileWriter_manager_for [of cfg_tmp] p c
  have "rotationCount ((manager_for cfg_tmp)\<lparr>lastRotation := 2, rotationCount := 1\<rparr>) =
        rotationCount (manager_for cfg_tmp) + 1 \<and>
      clock world0 \<le> lastRotation ((manager_for cfg_tmp)\<lparr>lastRotation := 2, rotationCount := 1\<rparr>)"
    by blast
  with p c show ?thesis
    by (simp add: RotateWithRecovery_ok_tmp fileWriter_manager_for)
qed

subsection \<open>Dispatching hooks\<close>

lemma trace_spawn_hooks:
  "trace (foldl (\<lambda>w' hook. perform e (Go (Go_hook hook event)) w') w hooks) =
     trace w @ map (\<lambda>hook. Go (Go_hook hook event)) hooks"
  by (induction hooks arbitrary: w) simp_all

lemma trace_triggerRotationHooks:
  "trace (triggerRotationHooks e om event w) =
     trace w @ MuRLock # MuRUnlock # map (\<lambda>hook. Go (Go_hook hook event)) (rotationHooks om)"
  by (simp add: triggerRotationHooks_def Let_def trace_spawn_hooks)

lemma spawned_map_Go [simp]: "spawned (map (\<lambda>h. Go (f h)) hs) = map f hs"
  by (induction hs) simp_all

lemma invocations_map_Go [simp]: "invocations (map (\<lambda>h. Go (f h)) hs) = []"
  by (induction hs) simp_all

lemma spawned_append [simp]: "spawned (xs @ ys) = spawned xs @ spawned ys"
  by (induction xs rule: spawned.induct) simp_all

lemma invocations_append [simp]: "invocations (xs @ ys) = invocations xs @ invocations ys"
  by (induction xs rule: invocations.induct) simp_all

lemma spawned_triggerRotationHooks:
  "spawned (since w (triggerRotationHooks e om event w)) =
     map (\<lambda>hook. Go_hook hook event) (rotationHooks om)"
  by (simp add: since_append [OF trace_triggerRotationHooks])

lemma hook_goroutine_contained:
  "fst (hook_goroutine e h event w) = Returns \<and>
   trace (snd (hook_goroutine e h event w)) = trace w @ hook_actions h event"
  by (simp add: hook_goroutine_def hook_actions_def Let_def split: call_outcome.splits)

lemma invocations_hook_actions [simp]: "invocations (hook_actions h event) = [(h, event)]"
  by (simp add: hook_actions_def split: call_outcome.splits)

lemma spawned_hook_actions [simp]: "spawned (hook_actions h event) = []"
  by (simp add: hook_actions_def split: call_outcome.splits)

lemma run_hook_goroutines:
  "\<exists>w1. run_goroutines e om (map (\<lambda>h. Go_hook h event) hs) w = Some w1 \<and>
        trace w1 = trace w @ concat (map (\<lambda>h. hook_actions h event) hs)"
proof (induction hs arbitrary: w)
  case Nil
  show ?case by simp
next
  case (Cons h hs)
  obtain w' where w': "hook_goroutine e h event w = (Returns, w')"
    and t: "trace w' = trace w @ hook_actions h event"
    using hook_goroutine_contained [of e h event w]
    by (cases "hook_goroutine e h event w") auto
  from Cons.IH [of w'] obtain w1 where
    "run_goroutines e om (map (\<lambda>h. Go_hook h event) hs) w' = Some w1"
    "trace w1 = trace w' @ concat (map (\<lambda>h. hook_actions h event) hs)" by blast
  with w' t show ?case by simp
qed

lemma invocations_concat_hook_actions [simp]:
  "invocations (concat (map (\<lambda>h. hook_actions h event) hs)) = map (\<lambda>h. (h, event)) hs"
  by (induction hs) simp_all

lemma dispatch_runs_every_hook:
  "\<exists>w1. dispatch e om event w = Some w1 \<and>
        since w w1 = MuRLock # MuRUnlock #
           map (\<lambda>h. Go (Go_hook h event)) (rotationHooks om) @
           concat (map (\<lambda>h. hook_actions h event) (rotationHooks om))"
proof -
  let ?w1 = "triggerRotationHooks e om event w"
  from run_hook_goroutines [of e om event "rotationHooks om" ?w1] obtain w2 where
    r: "run_goroutines e om (map (\<lambda>h. Go_hook h event) (rotationHooks om)) ?w1 = Some w2"
    and t: "trace w2 = trace ?w1 @ concat (map (\<lambda>h. hook_actions h event) (rotationHooks om))"
    by blast
  from r have "dispatch e om event w = Some w2"
    by (simp add: dispatch_def Let_def spawned_triggerRotationHooks)
  moreover from t have "since w w2 = MuRLock # MuRUnlock #
           map (\<lambda>h. Go (Go_hook h event)) (rotationHooks om) @
           concat (map (\<lambda>h. hook_actions h event) (rotationHooks om))"
    by (intro since_append) (simp add: trace_triggerRotationHooks)
  ultimately show ?thesis by blast
qed

lemma spawned_concat_hook_actions [simp]:
  "spawned (concat (map (\<lambda>h. hook_actions h event) hs)) = []"
  by (induction hs) simp_all

lemma RotateWithRecovery_hooks:
  assumes "RotateWithRecovery e om w = (res, om1, w1)"
  shows "rotationHooks om1 = rotationHooks om"
proof (cases "fileWriter om")
  case None
  with assms show ?thesis by (simp add: RotateWithRecovery_nil)
next
  case (Some fw)
  show ?thesis
  proof (cases fw)
    case (OtherWriteCloser n)
    with Some assms show ?thesis by (simp add: RotateWithRecovery_other)
  next
    case (LumberjackLogger lj)
    with Some have fw: "fileWriter om = Some (LumberjackLogger lj)" by simp
    from assms show ?thesis
      unfolding RotateWithRecovery_lumberjack [OF fw] attemptRecovery_bound [OF fw]
        setupFileOutput_cases
      by (auto split: option.splits)
  qed
qed

lemma RotateWithRecovery_ignores_hooks:
  "fst (RotateWithRecovery e (om\<lparr>rotationHooks := hs\<rparr>) w) = fst (RotateWithRecovery e om w)"
proof (cases "fileWriter om")
  case None
  then show ?thesis by (simp add: RotateWithRecovery_nil)
next
  case (Some fw)
  show ?thesis
  proof (cases fw)
    case (OtherWriteCloser n)
    with Some show ?thesis by (simp add: RotateWithRecovery_other)
  next
    case (LumberjackLogger lj)
    with Some have fw: "fileWriter om = Some (LumberjackLogger lj)"
      and fw': "fileWriter (om\<lparr>rotationHooks := hs\<rparr>) = Some (LumberjackLogger lj)" by simp_all
    have p: "primitive_outcome e (om\<lparr>rotationHooks := hs\<rparr>) lj w = primitive_outcome e om lj w"
      by (simp add: primitive_outcome_def rotation_world_def)
    have d: "dispatch_world e (om\<lparr>rotationHooks := hs\<rparr>) lj w = dispatch_world e om lj w"
      by (simp add: dispatch_world_def rotation_world_def rotation_event_def primitive_outcome_def)
    show ?thesis
      unfolding RotateWithRecovery_lumberjack [OF fw] RotateWithRecovery_lumberjack [OF fw']
        attemptRecovery_bound [OF fw] attemptRecovery_bound [OF fw'] setupFileOutput_cases p d
      by (simp split: option.splits)
  qed
qed

lemma spawned_RotateWithRecovery:
  assumes fw: "fileWriter om = Some (LumberjackLogger lj)"
    and r: "RotateWithRecovery e om w = (res, om1, w1)"
  shows "spawned (since w w1) = [Go_triggerRotationHooks (rotation_event e om lj w)]"
    and "invocations (since w w1) = []"
proof -
  let ?dir = "Dir (FilePath (config om))"
  have "since w w1 =
      [MuLock, Sys_Stat (FilePath (config om)), Lj_Rotate lj,
       Go (Go_triggerRotationHooks (rotation_event e om lj w))] @
      (if primitive_outcome e om lj w = None then [MuUnlock]
       else [Wc_Close (LumberjackLogger lj), Sys_MkdirAll ?dir, MuUnlock])"
    using r
    unfolding RotateWithRecovery_lumberjack [OF fw] attemptRecovery_bound [OF fw]
      setupFileOutput_cases
    by (auto intro!: since_append simp: trace_dispatch_world split: option.splits)
  then show "spawned (since w w1) = [Go_triggerRotationHooks (rotation_event e om lj w)]"
    and "invocations (since w w1) = []" by simp_all
qed

lemma panicHook_neq_normalHook: "panicHook \<noteq> normalHook"
  by (simp add: panicHook_def normalHook_def fun_eq_iff)

subsection \<open>C6: every hook is invoked once with the event of the rotation\<close>

text \<open>
  Claim C6. A rotation attempt, successful or not, starts exactly one dispatcher
  goroutine and invokes no hook itself; the event it hands over has \<^verbatim>\<open>Success\<close>
  equal to the outcome of the rotation primitive and an \<^verbatim>\<open>Error\<close> that is present
  exactly when \<^verbatim>\<open>Success\<close> is false; the hook list is not changed by the rotation.
  The dispatcher, run on the manager as it is at that moment, takes the read lock, copies
  the hook list, releases the lock and only then starts one goroutine per copied hook;
  run to the end, each hook of the list has been invoked exactly once, with that event,
  and no lock action follows the release. After \<^verbatim>\<open>RemoveAllRotationHooks\<close>, the
  dispatch of a following rotation invokes no hook.
\<close>

theorem hooks_dispatched_once:
  "(\<forall>lj res om1 w1.
      fileWriter om = Some (LumberjackLogger lj) \<and>
      RotateWithRecovery e om w = (res, om1, w1) \<longrightarrow>
        spawned (since w w1) = [Go_triggerRotationHooks (rotation_event e om lj w)] \<and>
        invocations (since w w1) = [] \<and>
        Success (rotation_event e om lj w) = (primitive_outcome e om lj w = None) \<and>
        Error (rotation_event e om lj w) = primitive_outcome e om lj w \<and>
        (Error (rotation_event e om lj w) \<noteq> None \<longleftrightarrow> \<not> Success (rotation_event e om lj w)) \<and>
        rotationHooks om1 = rotationHooks om) \<and>
   (\<exists>w2 rest.
      dispatch e om event w = Some w2 \<and>
      since w w2 = MuRLock # MuRUnlock # rest \<and>
      MuRLock \<notin> set rest \<and> MuRUnlock \<notin> set rest \<and>
      spawned rest = map (\<lambda>h. Go_hook h event) (rotationHooks om) \<and>
      invocations rest = map (\<lambda>h. (h, event)) (rotationHooks om)) \<and>
   (\<forall>res om2 w2.
      RotateWithRecovery e (fst (RemoveAllRotationHooks e om w))
        (snd (RemoveAllRotationHooks e om w)) = (res, om2, w2) \<longrightarrow>
      (\<exists>w3. dispatch e om2 event w2 = Some w3 \<and> invocations (since w2 w3) = []))"
proof (intro conjI allI impI)
  fix lj res om1 w1
  assume a: "fileWriter om = Some (LumberjackLogger lj) \<and>
      RotateWithRecovery e om w = (res, om1, w1)"
  then have fw: "fileWriter om = Some (LumberjackLogger lj)"
    and r: "RotateWithRecovery e om w = (res, om1, w1)" by simp_all
  show "spawned (since w w1) = [Go_triggerRotationHooks (rotation_event e om lj w)]"
    by (rule spawned_RotateWithRecovery(1) [OF fw r])
  show "invocations (since w w1) = []"
    by (rule spawned_RotateWithRecovery(2) [OF fw r])
  show "Success (rotation_event e om lj w) = (primitive_outcome e om lj w = None)"
    and "Error (rotation_event e om lj w) = primitive_outcome e om lj w"
    and "Error (rotation_event e om lj w) \<noteq> None \<longleftrightarrow> \<not> Success (rotation_event e om lj w)"
    by (simp_all add: rotation_event_def)
  from a show "rotationHooks om1 = rotationHooks om"
    by (blast dest: RotateWithRecovery_hooks)
next
  let ?rest = "map (\<lambda>h. Go (Go_hook h event)) (rotationHooks om) @
           concat (map (\<lambda>h. hook_actions h event) (rotationHooks om))"
  from dispatch_runs_every_hook [of e om event w] obtain w2 where
    d: "dispatch e om event w = Some w2" and s: "since w w2 = MuRLock # MuRUnlock # ?rest"
    by blast
  have "MuRLock \<notin> set ?rest" "MuRUnlock \<notin> set ?rest"
    by (auto simp: hook_actions_def split: call_outcome.splits)
  moreover have "spawned ?rest = map (\<lambda>h. Go_hook h event) (rotationHooks om)"
    by (simp add: comp_def)
  moreover have "invocations ?rest = map (\<lambda>h. (h, event)) (rotationHooks om)"
    by simp
  ultimately show "\<exists>w2 rest.
      dispatch e om event w = Some w2 \<and>
      since w w2 = MuRLock # MuRUnlock # rest \<and>
      MuRLock \<notin> set rest \<and> MuRUnlock \<notin> set rest \<and>
      spawned rest = map (\<lambda>h. Go_hook h event) (rotationHooks om) \<and>
      invocations rest = map (\<lambda>h. (h, event)) (rotationHooks om)"
    using d s by blast
next
  fix res om2 w2
  assume "RotateWithRecovery e (fst (RemoveAllRotationHooks e om w))
        (snd (RemoveAllRotationHooks e om w)) = (res, om2, w2)"
  then have "rotationHooks om2 = rotationHooks (fst (RemoveAllRotationHooks e om w))"
    by (rule RotateWithRecovery_hooks)
  then have h: "rotationHooks om2 = []"
    by (simp add: RemoveAllRotationHooks_def Let_def)
  from dispatch_runs_every_hook [of e om2 event w2] obtain w3 where
    "dispatch e om2 event w2 = Some w3"
    "since w2 w3 = MuRLock # MuRUnlock #
       map (\<lambda>h. Go (Go_hook h event)) (rotationHooks om2) @
       concat (map (\<lambda>h. hook_actions h event) (rotationHooks om2))" by blast
  with h show "\<exists>w3. dispatch e om2 event w2 = Some w3 \<and> invocations (since w2 w3) = []"
    by simp
qed

theorem hooks_dispatched_once_witness:
  "fileWriter ((manager_for cfg_tmp)\<lparr>rotationHooks := [normalHook]\<rparr>) =
     Some (LumberjackLogger (new_Logger cfg_tmp)) \<and>
   spawned (since world0 (snd (snd (RotateWithRecovery env_rotate_fails
       ((manager_for cfg_tmp)\<lparr>rotationHooks := [normalHook]\<rparr>) world0)))) =
     [Go_triggerRotationHooks (rotation_event env_rotate_fails
        ((manager_for cfg_tmp)\<lparr>rotationHooks := [normalHook]\<rparr>) (new_Logger cfg_tmp) world0)] \<and>
   \<not> Success (rotation_event env_rotate_fails
        ((manager_for cfg_tmp)\<lparr>rotationHooks := [normalHook]\<rparr>) (new_Logger cfg_tmp) world0) \<and>
   Error (rotation_event env_rotate_fails
        ((manager_for cfg_tmp)\<lparr>rotationHooks := [normalHook]\<rparr>) (new_Logger cfg_tmp) world0) =
     Some (ExternalError ''rename failed'') \<and>
   (\<exists>w2. dispatch env_rotate_fails ((manager_for cfg_tmp)\<lparr>rotationHooks := [normalHook]\<rparr>)
           sample_event world0 = Some w2 \<and>
         invocations (since world0 w2) = [(normalHook, sample_event)])"
proof -
  let ?om = "(manager_for cfg_tmp)\<lparr>rotationHooks := [normalHook]\<rparr>"
  let ?r = "RotateWithRecovery env_rotate_fails ?om world0"
  note t = hooks_dispatched_once [of ?om env_rotate_fails world0 sample_event]
  have fw: "fileWriter ?om = Some (LumberjackLogger (new_Logger cfg_tmp))"
    by (simp add: manager_for_def)
  have r: "?r = (fst ?r, fst (snd ?r), snd (snd ?r))" by simp
  have p: "primitive_outcome env_rotate_fails ?om (new_Logger cfg_tmp) world0 =
      Some (ExternalError ''rename failed'')"
    by (simp add: primitive_outcome_def env_rotate_fails_def)
  from t fw r have 1: "spawned (since world0 (snd (snd ?r))) =
     [Go_triggerRotationHooks (rotation_event env_rotate_fails ?om (new_Logger cfg_tmp) world0)] \<and>
     Success (rotation_event env_rotate_fails ?om (new_Logger cfg_tmp) world0) =
       (primitive_outcome env_rotate_fails ?om (new_Logger cfg_tmp) world0 = None) \<and>
     Error (rotation_event env_rotate_fails ?om (new_Logger cfg_tmp) world0) =
       primitive_outcome env_rotate_fails ?om (new_Logger cfg_tmp) world0"
    by blast
  from t have 2: "\<exists>w2. dispatch env_rotate_fails ?om sample_event world0 = Some w2 \<and>
         invocations (since world0 w2) = [(normalHook, sample_event)]"
    by fastforce
  from fw 1 2 p show ?thesis by simp
qed

text \<open>
  The dispatcher reads the hook list when it runs, not when the rotation starts it. It
  cannot run before \<^verbatim>\<open>RotateWithRecovery\<close> has released the write lock, so a
  \<^verbatim>\<open>RemoveAllRotationHooks\<close> that gets in between empties the list it will copy:
  the hooks that were registered during the rotation are then not invoked for it.
\<close>

lemma hooks_removed_before_the_snapshot:
  assumes "RotateWithRecovery e om w = (res, om1, w1)"
    and "RemoveAllRotationHooks e om1 w1 = (om2, w2)"
  shows "\<exists>w3. dispatch e om2 event w2 = Some w3 \<and> invocations (since w2 w3) = []"
proof -
  from assms(2) have h: "rotationHooks om2 = []"
    by (auto simp: RemoveAllRotationHooks_def Let_def)
  from dispatch_runs_every_hook [of e om2 event w2] obtain w3 where
    "dispatch e om2 event w2 = Some w3"
    "since w2 w3 = MuRLock # MuRUnlock #
       map (\<lambda>h. Go (Go_hook h event)) (rotationHooks om2) @
       concat (map (\<lambda>h. hook_actions h event) (rotationHooks om2))" by blast
  with h show ?thesis by simp
qed

subsection \<open>C7: a panicking hook is contained\<close>

text \<open>
  Claim C7. The goroutine around a hook always returns, whether the hook returns or
  panics. So for every event and every hook list the dispatch runs to the end, every
  registered hook is invoked as often as it is registered, whatever the other hooks do,
  and the panic of a hook is written to standard error. The error \<^verbatim>\<open>Rotate\<close> and
  \<^verbatim>\<open>RotateWithRecovery\<close> return does not depend on the registered hooks.
\<close>

theorem hook_panic_contained:
  "fst (hook_goroutine e h event w) = Returns \<and>
   (\<exists>w2. dispatch e om event w = Some w2 \<and>
      (\<forall>h' \<in> set (rotationHooks om).
          count_list (invocations (since w w2)) (h', event) = count_list (rotationHooks om) h' \<and>
          (\<forall>r. h' event = Panics r \<longrightarrow>
             Stderr (''Rotation hook panic: '' @ r @ [CHR 0x0A]) \<in> set (since w w2)))) \<and>
   fst (RotateWithRecovery e (om\<lparr>rotationHooks := hs\<rparr>) w) = fst (RotateWithRecovery e om w) \<and>
   fst (Rotate e (om\<lparr>rotationHooks := hs\<rparr>) w) = fst (Rotate e om w)"
proof (intro conjI)
  show "fst (hook_goroutine e h event w) = Returns"
    by (simp add: hook_goroutine_contained)
  show "fst (RotateWithRecovery e (om\<lparr>rotationHooks := hs\<rparr>) w) = fst (RotateWithRecovery e om w)"
    by (rule RotateWithRecovery_ignores_hooks)
  then show "fst (Rotate e (om\<lparr>rotationHooks := hs\<rparr>) w) = fst (Rotate e om w)"
    by (simp add: Rotate_def)
  let ?hs = "rotationHooks om"
  from dispatch_runs_every_hook [of e om event w] obtain w2 where
    d: "dispatch e om event w = Some w2"
    and s: "since w w2 = MuRLock # MuRUnlock #
       map (\<lambda>h. Go (Go_hook h event)) ?hs @ concat (map (\<lambda>h. hook_actions h event) ?hs)"
    by blast
  have i: "invocations (since w w2) = map (\<lambda>h. (h, event)) ?hs"
    unfolding s by simp
  have c: "count_list (map (\<lambda>h. (h, event)) xs) (h', event) = count_list xs h'" for xs h'
    by (induction xs) simp_all
  have p: "Stderr (''Rotation hook panic: '' @ r @ [CHR 0x0A]) \<in> set (since w w2)"
    if "h' \<in> set ?hs" "h' event = Panics r" for h' r
  proof -
    from that(2) have "Stderr (''Rotation hook panic: '' @ r @ [CHR 0x0A]) \<in> set (hook_actions h' event)"
      by (simp add: hook_actions_def)
    with that(1) show ?thesis unfolding s by auto
  qed
  show "\<exists>w2. dispatch e om event w = Some w2 \<and>
      (\<forall>h' \<in> set (rotationHooks om).
          count_list (invocations (since w w2)) (h', event) = count_list (rotationHooks om) h' \<and>
          (\<forall>r. h' event = Panics r \<longrightarrow>
             Stderr (''Rotation hook panic: '' @ r @ [CHR 0x0A]) \<in> set (since w w2)))"
  proof (intro exI [of _ w2] conjI ballI allI impI)
    show "dispatch e om event w = Some w2" by (rule d)
  next
    fix h' assume "h' \<in> set (rotationHooks om)"
    show "count_list (invocations (since w w2)) (h', event) = count_list (rotationHooks om) h'"
      unfolding i by (rule c)
  next
    fix h' r assume "h' \<in> set (rotationHooks om)" "h' event = Panics r"
    then show "Stderr (''Rotation hook panic: '' @ r @ [CHR 0x0A]) \<in> set (since w w2)"
      by (rule p)
  qed
qed

theorem hook_panic_contained_witness:
  "panicHook sample_event = Panics ''test panic in hook'' \<and>
   (\<exists>w2. dispatch env_ok ((manager_for cfg_tmp)\<lparr>rotationHooks := [panicHook, normalHook]\<rparr>)
           sample_event world0 = Some w2 \<and>
      count_list (invocations (since world0 w2)) (normalHook, sample_event) = 1 \<and>
      count_list (invocations (since world0 w2)) (panicHook, sample_event) = 1 \<and>
      Stderr (''Rotation hook panic: test panic in hook'' @ [CHR 0x0A]) \<in> set (since world0 w2)) \<and>
   fst (Rotate env_ok ((manager_for cfg_tmp)\<lparr>rotationHooks := [panicHook, normalHook]\<rparr>) world0) =
     fst (Rotate env_ok (manager_for cfg_tmp) world0)"
proof -
  let ?om = "(manager_for cfg_tmp)\<lparr>rotationHooks := [panicHook, normalHook]\<rparr>"
  have h: "rotationHooks ?om = [panicHook, normalHook]" by simp
  have pn: "panicHook sample_event = Panics ''test panic in hook''"
    by (simp add: panicHook_def)
  from hook_panic_contained [of env_ok normalHook sample_event world0 ?om "[panicHook, normalHook]"]
  obtain w2 where d: "dispatch env_ok ?om sample_event world0 = Some w2"
    and a: "\<forall>h' \<in> set (rotationHooks ?om).
          count_list (invocations (since world0 w2)) (h', sample_event) =
            count_list (rotationHooks ?om) h' \<and>
          (\<forall>r. h' sample_event = Panics r \<longrightarrow>
             Stderr (''Rotation hook panic: '' @ r @ [CHR 0x0A]) \<in> set (since world0 w2))"
    by blast
  from a have 1: "count_list (invocations (since world0 w2)) (normalHook, sample_event) = 1"
    using panicHook_neq_normalHook by (simp add: h)
  from a have 2: "count_list (invocations (since world0 w2)) (panicHook, sample_event) = 1"
    using panicHook_neq_normalHook by (simp add: h)
  from a pn have 3: "Stderr (''Rotation hook panic: '' @ ''test panic in hook'' @ [CHR 0x0A])
      \<in> set (since world0 w2)"
    by (simp add: h)
  have 4: "fst (Rotate env_ok ?om world0) = fst (Rotate env_ok (manager_for cfg_tmp) world0)"
    using hook_panic_contained [of env_ok normalHook sample_event world0 "manager_for cfg_tmp"
        "[panicHook, normalHook]"] by simp
  from pn d 1 2 3 4 show ?thesis by auto
qed

subsection \<open>C3: the size check of ForceRotationIfNeeded\<close>

text \<open>
  The threshold is computed in \<^verbatim>\<open>int64\<close>. As long as \<open>MaxSize\<close> is below \<open>2 ^ 43\<close>
  the product with \<open>1024 * 1024\<close> is the number it stands for.
\<close>

lemma sint_megabytes:
  fixes m :: go_int
  assumes "0 \<le> sint m" "sint m < 2 ^ 43"
  shows "sint (m * 1024 * 1024) = sint m * 1048576"
proof -
  have e: "m * 1024 * 1024 = m * 1048576" by simp
  have "sint (m * 1048576) = signed_take_bit 63 (sint m * sint (1048576 :: go_int))"
    by (simp only: sint_word_ariths) simp
  also have "sint (1048576 :: go_int) = 1048576" by simp
  also have "signed_take_bit 63 (sint m * 1048576) = sint m * 1048576"
    using assms by (intro signed_take_bit_int_eq_self) simp_all
  finally show ?thesis unfolding e .
qed

text \<open>
  Without a file, or when \<^verbatim>\<open>os.Stat\<close> fails, nothing is rotated and the manager is
  unchanged. At or above the threshold the call is one \<^verbatim>\<open>RotateWithRecovery\<close>, for
  every positive \<open>MaxSize\<close>. Below the threshold nothing is rotated, provided
  \<open>MaxSize < 2 ^ 43\<close>.
\<close>

lemma ForceRotationIfNeeded_no_file:
  "\<not> isFileMode om \<or> fileWriter om = None \<Longrightarrow> ForceRotationIfNeeded e om w = (None, om, w)"
  by (simp add: ForceRotationIfNeeded_def)

lemma ForceRotationIfNeeded_stat_fails:
  "isFileMode om \<Longrightarrow> fileWriter om = Some fw \<Longrightarrow>
   stat_result e w (FilePath (config om)) = Inl err \<Longrightarrow>
   ForceRotationIfNeeded e om w = (None, om, perform e (Sys_Stat (FilePath (config om))) w)"
  by (simp add: ForceRotationIfNeeded_def os_Stat_def)

lemma ForceRotationIfNeeded_at_threshold:
  assumes "isFileMode om" "fileWriter om = Some fw"
    and "stat_result e w (FilePath (config om)) = Inr sz"
    and "0 < sint (MaxSize (config om))"
    and "sint (MaxSize (config om)) * 1048576 \<le> sint sz"
  shows "ForceRotationIfNeeded e om w =
     RotateWithRecovery e om (perform e (Sys_Stat (FilePath (config om))) w)"
proof -
  have "sint sz < 2 ^ 63" using sint_lt [of sz] by simp
  with assms(5) have "sint (MaxSize (config om)) < 2 ^ 43" by simp
  with assms(4) have "sint (MaxSize (config om) * 1024 * 1024) =
      sint (MaxSize (config om)) * 1048576"
    by (intro sint_megabytes) simp_all
  with assms show ?thesis
    by (simp add: ForceRotationIfNeeded_def os_Stat_def Let_def)
qed

lemma ForceRotationIfNeeded_below_threshold:
  assumes "isFileMode om" "fileWriter om = Some fw"
    and "stat_result e w (FilePath (config om)) = Inr sz"
    and "0 < sint (MaxSize (config om))" "sint (MaxSize (config om)) < 2 ^ 43"
    and "sint sz < sint (MaxSize (config om)) * 1048576"
  shows "ForceRotationIfNeeded e om w =
     (None, om, perform e (Sys_Stat (FilePath (config om))) w)"
proof -
  from assms(4,5) have "sint (MaxSize (config om) * 1024 * 1024) =
      sint (MaxSize (config om)) * 1048576"
    by (intro sint_megabytes) simp_all
  with assms show ?thesis
    by (simp add: ForceRotationIfNeeded_def os_Stat_def Let_def)
qed

lemma validate_huge: "validateConfig (OutputManager_with cfg_huge) = None"
  by (simp add: validateConfig_def cfg_huge_def cfg_eval path_eval Let_def)

lemma reachable_manager_huge: "reachable (manager_for cfg_huge)"
proof -
  have d: "Dir (FilePath cfg_huge) = ''/tmp''"
    by (simp add: cfg_huge_def cfg_eval path_eval)
  have p: "FilePath cfg_huge \<noteq> []" by (simp add: cfg_huge_def cfg_eval)
  have m: "mkdirall_result env_ok world0 ''/tmp'' = None" by (simp add: env_ok_def)
  have s: "setupFileOutput env_ok (OutputManager_with cfg_huge) world0 =
        (None,
         (OutputManager_with cfg_huge)\<lparr>fileWriter := Some (LumberjackLogger (new_Logger cfg_huge))\<rparr>,
         perform env_ok (Sys_MkdirAll ''/tmp'') world0)"
    by (simp add: setupFileOutput_cases OutputManager_with_def d m)
  have "NewOutputManager env_ok cfg_huge world0 =
     (Inr (manager_for cfg_huge), perform env_ok (Sys_MkdirAll ''/tmp'') world0)"
    unfolding NewOutputManager_def Let_def validate_huge using p s
    by (simp add: manager_for_def OutputManager_with_def)
  then show ?thesis by (rule by_NewOutputManager)
qed

text \<open>
  Claim C3 says that \<^verbatim>\<open>ForceRotationIfNeeded\<close> rotates nothing while the file is
  strictly smaller than \<open>MaxSize * 1048576\<close> bytes. The code departs from it where the
  product overflows. With \<open>MaxSize = 2 ^ 43\<close>, a configuration that validation accepts,
  \<^verbatim>\<open>int64(MaxSize) * 1024 * 1024\<close> is \<open>2 ^ 63\<close> and wraps to \<open>- 2 ^ 63\<close>; an empty
  file, far below the threshold, is then at or above the wrapped value, and the call
  rotates: the rotation primitive is called and \<^verbatim>\<open>rotationCount\<close> goes from 0 to 1.
\<close>

theorem ForceRotationIfNeeded_overflow:
  "reachable (manager_for cfg_huge) \<and>
   isFileMode (manager_for cfg_huge) \<and>
   MaxSize (config (manager_for cfg_huge)) = 8796093022208 \<and>
   stat_result env_ok world0 (FilePath (config (manager_for cfg_huge))) = Inr 0 \<and>
   sint (0 :: int64) < sint (MaxSize (config (manager_for cfg_huge))) * 1048576 \<and>
   fst (ForceRotationIfNeeded env_ok (manager_for cfg_huge) world0) = None \<and>
   rotationCount (fst (snd (ForceRotationIfNeeded env_ok (manager_for cfg_huge) world0))) = 1 \<and>
   Lj_Rotate (new_Logger cfg_huge) \<in>
     set (trace (snd (snd (ForceRotationIfNeeded env_ok (manager_for cfg_huge) world0))))"
proof -
  let ?om = "manager_for cfg_huge"
  let ?w1 = "perform env_ok (Sys_Stat (FilePath (config ?om))) world0"
  have st: "stat_result env_ok world0 (FilePath (config ?om)) = Inr 0"
    by (simp add: env_ok_def)
  have ms: "MaxSize (config ?om) = 8796093022208"
    by (simp add: manager_for_def cfg_huge_def cfg_eval)
  have cmp: "sint (0 :: int64) \<ge> sint (MaxSize (config ?om) * 1024 * 1024)"
    unfolding ms by simp
  have f: "ForceRotationIfNeeded env_ok ?om world0 = RotateWithRecovery env_ok ?om ?w1"
    using st cmp by (simp add: ForceRotationIfNeeded_def os_Stat_def Let_def manager_for_def)
  have p: "primitive_outcome env_ok ?om (new_Logger cfg_huge) ?w1 = None"
    by (simp add: primitive_outcome_def env_ok_def)
  have r: "RotateWithRecovery env_ok ?om ?w1 =
      (None, ?om\<lparr>lastRotation := clock (rotation_world env_ok ?om ?w1),
                 rotationCount := rotationCount ?om + 1\<rparr>,
       perform env_ok MuUnlock (dispatch_world env_ok ?om (new_Logger cfg_huge) ?w1))"
    unfolding RotateWithRecovery_lumberjack [OF fileWriter_manager_for] p by simp
  have "sint (0 :: int64) < sint (MaxSize (config ?om)) * 1048576"
    unfolding ms by simp
  then show ?thesis
    using reachable_manager_huge st ms
    unfolding f r
    by (simp add: trace_dispatch_world) (simp add: manager_for_def)
qed

text \<open>
  The manager of this run is in file mode with a writer bound and has never rotated, so
  the guard of \<^verbatim>\<open>ForceRotationIfNeeded\<close> is passed and the count of 1 comes from
  this call.
\<close>

theorem ForceRotationIfNeeded_overflow_witness:
  "isFileMode (manager_for cfg_huge) \<and>
   fileWriter (manager_for cfg_huge) = Some (LumberjackLogger (new_Logger cfg_huge)) \<and>
   rotationCount (manager_for cfg_huge) = 0 \<and>
   rotationCount (fst (snd (ForceRotationIfNeeded env_ok (manager_for cfg_huge) world0))) = 1"
  using ForceRotationIfNeeded_overflow by (simp add: manager_for_def)

end
